theory Spec2Isabelle
  imports Complex_Main "HOL-Library.Log_Nat"
begin

section \<open>JavaScript numbers\<close>

text \<open>
  The calculator (\<open>src/components/beam-load-calculator.tsx\<close>) computes on JavaScript
  \<open>number\<close> values. They are modelled with exact real arithmetic on the finite values and
  with the IEEE-754 rules for the special values: a positive zero (\<open>Fin 0\<close>), a negative
  zero, the two infinities and NaN. So a division by zero, an undefined operand and every
  operation on an infinity or on NaN behave as in JavaScript. In these operations a finite
  result is the exact real result, and a numeric literal is the number it writes: the
  rounding of each result to binary64 is a separate function, \<open>r64\<close> below, which is
  applied where a property depends on it.
\<close>

datatype jsnum = Fin real | NZero | PInf | NInf | NaN

text \<open>The sign bit, the real value of a finite number, and the classes of numbers.\<close>

fun neg :: "jsnum \<Rightarrow> bool" where
  "neg (Fin r) = (r < 0)"
| "neg NZero = True"
| "neg PInf = False"
| "neg NInf = True"
| "neg NaN = False"

fun rv :: "jsnum \<Rightarrow> real" where
  "rv (Fin r) = r"
| "rv NZero = 0"
| "rv PInf = 0"
| "rv NInf = 0"
| "rv NaN = 0"

fun is_fin :: "jsnum \<Rightarrow> bool" where
  "is_fin (Fin r) = True"
| "is_fin NZero = True"
| "is_fin PInf = False"
| "is_fin NInf = False"
| "is_fin NaN = False"

fun is_inf :: "jsnum \<Rightarrow> bool" where
  "is_inf (Fin r) = False"
| "is_inf NZero = False"
| "is_inf PInf = True"
| "is_inf NInf = True"
| "is_inf NaN = False"

fun is_zero :: "jsnum \<Rightarrow> bool" where
  "is_zero (Fin r) = (r = 0)"
| "is_zero NZero = True"
| "is_zero PInf = False"
| "is_zero NInf = False"
| "is_zero NaN = False"

text \<open>Position on the extended real line: \<open>-1\<close>, \<open>0\<close>, \<open>1\<close> for
  \<open>-Infinity\<close>, a finite number, \<open>Infinity\<close>.\<close>

fun cls :: "jsnum \<Rightarrow> int" where
  "cls (Fin r) = 0"
| "cls NZero = 0"
| "cls PInf = 1"
| "cls NInf = - 1"
| "cls NaN = 0"

definition szero :: "bool \<Rightarrow> jsnum" where
  "szero s = (if s then NZero else Fin 0)"

definition sinf :: "bool \<Rightarrow> jsnum" where
  "sinf s = (if s then NInf else PInf)"

text \<open>A finite result \<open>r\<close>; when it is zero, its sign is \<open>s\<close>.\<close>

definition mk :: "bool \<Rightarrow> real \<Rightarrow> jsnum" where
  "mk s r = (if r = 0 then szero s else Fin r)"

text \<open>Unary minus, \<open>+\<close>, binary \<open>-\<close>, \<open>*\<close> and \<open>/\<close>.\<close>

fun jneg :: "jsnum \<Rightarrow> jsnum" where
  "jneg (Fin r) = (if r = 0 then NZero else Fin (- r))"
| "jneg NZero = Fin 0"
| "jneg PInf = NInf"
| "jneg NInf = PInf"
| "jneg NaN = NaN"

definition jadd :: "jsnum \<Rightarrow> jsnum \<Rightarrow> jsnum" where
  "jadd a b =
     (if a = NaN \<or> b = NaN then NaN
      else if is_inf a then (if is_inf b \<and> a \<noteq> b then NaN else a)
      else if is_inf b then b
      else if rv a + rv b = 0 then szero (neg a \<and> neg b)
      else Fin (rv a + rv b))"

definition jsub :: "jsnum \<Rightarrow> jsnum \<Rightarrow> jsnum" where
  "jsub a b = jadd a (jneg b)"

definition jmul :: "jsnum \<Rightarrow> jsnum \<Rightarrow> jsnum" where
  "jmul a b =
     (if a = NaN \<or> b = NaN then NaN
      else if is_inf a \<or> is_inf b
        then (if is_zero a \<or> is_zero b then NaN else sinf (neg a \<noteq> neg b))
      else mk (neg a \<noteq> neg b) (rv a * rv b))"

definition jdiv :: "jsnum \<Rightarrow> jsnum \<Rightarrow> jsnum" where
  "jdiv a b =
     (if a = NaN \<or> b = NaN then NaN
      else if is_inf a then (if is_inf b then NaN else sinf (neg a \<noteq> neg b))
      else if is_inf b then szero (neg a \<noteq> neg b)
      else if is_zero b then (if is_zero a then NaN else sinf (neg a \<noteq> neg b))
      else mk (neg a \<noteq> neg b) (rv a / rv b))"

text \<open>The comparisons \<open><\<close>, \<open><=\<close>, \<open>>\<close>, \<open>>=\<close>, \<open>==\<close>: false as soon as one
  side is NaN; the two zeros are equal.\<close>

definition jlt :: "jsnum \<Rightarrow> jsnum \<Rightarrow> bool" where
  "jlt a b = (a \<noteq> NaN \<and> b \<noteq> NaN \<and> (cls a < cls b \<or> (cls a = cls b \<and> rv a < rv b)))"

definition jle :: "jsnum \<Rightarrow> jsnum \<Rightarrow> bool" where
  "jle a b = (a \<noteq> NaN \<and> b \<noteq> NaN \<and> (cls a < cls b \<or> (cls a = cls b \<and> rv a \<le> rv b)))"

definition jgt :: "jsnum \<Rightarrow> jsnum \<Rightarrow> bool" where
  "jgt a b = jlt b a"

definition jge :: "jsnum \<Rightarrow> jsnum \<Rightarrow> bool" where
  "jge a b = jle b a"

definition jeq :: "jsnum \<Rightarrow> jsnum \<Rightarrow> bool" where
  "jeq a b = (a \<noteq> NaN \<and> b \<noteq> NaN \<and> cls a = cls b \<and> rv a = rv b)"

text \<open>\<open>Math.abs\<close>, \<open>Math.max\<close>, \<open>Math.min\<close> and \<open>Math.pow\<close> with a natural
  exponent. \<open>Math.max\<close> and \<open>Math.min\<close> return NaN as soon as one argument is NaN, and
  order the negative zero below the positive one; with three arguments \<open>Math.max(a, b, c)\<close>
  is \<open>jmax (jmax a b) c\<close>.\<close>

fun jabs :: "jsnum \<Rightarrow> jsnum" where
  "jabs (Fin r) = Fin \<bar>r\<bar>"
| "jabs NZero = Fin 0"
| "jabs PInf = PInf"
| "jabs NInf = PInf"
| "jabs NaN = NaN"

definition jmax :: "jsnum \<Rightarrow> jsnum \<Rightarrow> jsnum" where
  "jmax a b =
     (if a = NaN \<or> b = NaN then NaN
      else if jlt a b then b
      else if jlt b a then a
      else if neg a then b else a)"

definition jmin :: "jsnum \<Rightarrow> jsnum \<Rightarrow> jsnum" where
  "jmin a b =
     (if a = NaN \<or> b = NaN then NaN
      else if jlt a b then a
      else if jlt b a then b
      else if neg a then a else b)"

primrec jpow :: "jsnum \<Rightarrow> nat \<Rightarrow> jsnum" where
  "jpow a 0 = Fin 1"
| "jpow a (Suc n) = jmul a (jpow a n)"

text \<open>\<open>Math.PI\<close> is the binary64 number nearest to \<open>\<pi>\<close>.\<close>

definition Math_PI :: jsnum where
  "Math_PI = Fin (884279719003555 / 281474976710656)"

text \<open>
  \<open>Number(x.toFixed(d))\<close>. \<open>toFixed\<close> throws a RangeError when the number of digits is
  above 100; it prints NaN and the infinities by name and a finite number of magnitude
  \<open>10^21\<close> or more in full, so that \<open>Number\<close> reads the same number back. Below \<open>10^21\<close> it
  prints the sign and then the integer \<open>n\<close> for which \<open>n / 10^d\<close> is closest to the
  magnitude (the larger one on a tie); a negative number that rounds to zero is printed as
  \<open>-0.00\<close> and read back as the negative zero, while the negative zero itself is printed
  without sign.
\<close>

datatype error = RangeError

fun toFixedVal :: "nat \<Rightarrow> jsnum \<Rightarrow> jsnum" where
  "toFixedVal d (Fin r) =
     (if \<bar>r\<bar> \<ge> 10 ^ 21 then Fin r
      else if r < 0 then mk True (- (of_int \<lfloor>\<bar>r\<bar> * 10 ^ d + 1 / 2\<rfloor> / 10 ^ d))
      else Fin (of_int \<lfloor>\<bar>r\<bar> * 10 ^ d + 1 / 2\<rfloor> / 10 ^ d))"
| "toFixedVal d NZero = Fin 0"
| "toFixedVal d PInf = PInf"
| "toFixedVal d NInf = NInf"
| "toFixedVal d NaN = NaN"

definition toFixedNum :: "jsnum \<Rightarrow> nat \<Rightarrow> error + jsnum" where
  "toFixedNum x d = (if d > 100 then Inl RangeError else Inr (toFixedVal d x))"

definition bind_err :: "error + 'a \<Rightarrow> ('a \<Rightarrow> error + 'b) \<Rightarrow> error + 'b" where
  "bind_err m f = (case m of Inl e \<Rightarrow> Inl e | Inr v \<Rightarrow> f v)"

section \<open>Rounding to binary64\<close>

text \<open>
  JavaScript rounds the exact result of every operation to the nearest binary64 number,
  ties to the even significand. For \<open>v \<noteq> 0\<close>, \<open>expo v\<close> is the exponent \<open>e\<close> with
  \<open>2^e \<le> |v| < 2^(e+1)\<close>, computed from the bit length of an integer. The binary64 numbers
  around \<open>v\<close> are the multiples of \<open>2^(e - 52)\<close>, and of \<open>2^(-1074)\<close> below the normal range;
  a result that rounds to \<open>2^1024\<close> or beyond is an infinity, and one that rounds to zero
  keeps its sign.
\<close>

definition pow2 :: "int \<Rightarrow> real" where
  "pow2 k = (if 0 \<le> k then 2 ^ nat k else 1 / 2 ^ nat (- k))"

definition expo :: "real \<Rightarrow> int" where
  "expo v =
     (if 1 \<le> \<bar>v\<bar> then bitlen \<lfloor>\<bar>v\<bar>\<rfloor> - 1 else - bitlen (\<lceil>1 / \<bar>v\<bar>\<rceil> - 1))"




section \<open>Data model\<close>

text \<open>
  A load (\<open>interface Load\<close>): \<open>endPosition\<close> is optional, and the form leaves it undefined
  when a load is switched to a uniform load. Read as a number, \<open>undefined\<close> is NaN.
\<close>

datatype load_type = PointLoad | UniformLoad

record load =
  type :: load_type
  magnitude :: jsnum
  startPosition :: jsnum
  endPosition :: "jsnum option"

fun num_of :: "jsnum option \<Rightarrow> jsnum" where
  "num_of None = NaN"
| "num_of (Some v) = v"

text \<open>The table \<open>standardMaterials\<close> and the custom material of the form.\<close>

record custom_material =
  yieldStrength :: jsnum
  elasticModulus :: jsnum
  density :: jsnum

record standard_material = custom_material +
  poissonsRatio :: jsnum
  thermalExpansion :: jsnum

datatype material_key = ASTM_A36 | ASTM_A992 | ASTM_A572_Grade_50 | Custom

fun standardMaterials :: "material_key \<Rightarrow> standard_material" where
  "standardMaterials ASTM_A36 =
     \<lparr>yieldStrength = Fin 250, elasticModulus = Fin 200, density = Fin 7850,
      poissonsRatio = Fin (3 / 10), thermalExpansion = Fin 12\<rparr>"
| "standardMaterials ASTM_A992 =
     \<lparr>yieldStrength = Fin 345, elasticModulus = Fin 200, density = Fin 7850,
      poissonsRatio = Fin (3 / 10), thermalExpansion = Fin 12\<rparr>"
| "standardMaterials ASTM_A572_Grade_50 =
     \<lparr>yieldStrength = Fin 345, elasticModulus = Fin 200, density = Fin 7850,
      poissonsRatio = Fin (3 / 10), thermalExpansion = Fin 12\<rparr>"
| "standardMaterials Custom =
     \<lparr>yieldStrength = Fin 0, elasticModulus = Fin 0, density = Fin 0,
      poissonsRatio = Fin 0, thermalExpansion = Fin 0\<rparr>"

text \<open>The component state that \<open>calculateResults\<close> and \<open>calculateDiagrams\<close> read, and the
  state they set.\<close>

record inputs =
  beamType :: string
  beamCrossSection :: string
  beamLength :: jsnum
  leftSupport :: jsnum
  rightSupport :: jsnum
  loads :: "load list"
  material :: material_key
  customMaterial :: custom_material
  width :: jsnum
  height :: jsnum
  flangeWidth :: jsnum
  flangeThickness :: jsnum
  webThickness :: jsnum
  diameter :: jsnum
  beamDensity :: jsnum

record results =
  maxShearForce :: jsnum
  maxBendingMoment :: jsnum
  maxNormalStress :: jsnum
  maxShearStress :: jsnum
  safetyFactor :: jsnum
  centerOfGravity :: jsnum
  momentOfInertia :: jsnum
  sectionModulus :: jsnum

record outputs =
  beamWeight :: jsnum
  results :: results

text \<open>A sample \<open>{ x: ..., y: ... }\<close> of a diagram, as the pair \<open>(x, y)\<close>.\<close>

type_synonym point = "jsnum \<times> jsnum"

section \<open>calculateResults\<close>

text \<open>Millimetres to metres (lines 332 to 340).\<close>

definition toM :: "jsnum \<Rightarrow> jsnum" where
  "toM v = jdiv v (Fin 1000)"

text \<open>The beam weight (lines 343 to 361). The area of an I beam and of a C channel is, as
  both switches write it,
  \<open>2 * flangeWidthM * flangeThicknessM + (heightM - 2 * flangeThicknessM) * webThicknessM\<close>.\<close>

definition flangedArea :: "inputs \<Rightarrow> jsnum" where
  "flangedArea inp =
     jadd (jmul (jmul (Fin 2) (toM (flangeWidth inp))) (toM (flangeThickness inp)))
          (jmul (jsub (toM (height inp)) (jmul (Fin 2) (toM (flangeThickness inp))))
                (toM (webThickness inp)))"

definition beamVolume :: "inputs \<Rightarrow> jsnum" where
  "beamVolume inp =
     (if beamCrossSection inp = ''Rectangular''
        then jmul (jmul (toM (width inp)) (toM (height inp))) (toM (beamLength inp))
      else if beamCrossSection inp = ''I Beam''
        then jmul (flangedArea inp) (toM (beamLength inp))
      else if beamCrossSection inp = ''C Channel''
        then jmul (flangedArea inp) (toM (beamLength inp))
      else if beamCrossSection inp = ''Circular''
        then jmul (jmul Math_PI (jpow (jdiv (toM (diameter inp)) (Fin 2)) 2))
                  (toM (beamLength inp))
      else jmul (jmul (toM (width inp)) (toM (height inp))) (toM (beamLength inp)))"

definition beamWeightN :: "inputs \<Rightarrow> jsnum" where
  "beamWeightN inp = jmul (jmul (beamVolume inp) (beamDensity inp)) (Fin (981 / 100))"

text \<open>The reaction forces (lines 364 to 391): each \<open>forEach\<close> is a fold over the loads
  that updates \<open>(R1, R2)\<close>. The arguments \<open>l\<close> and \<open>r\<close> are \<open>leftSupportM\<close> and \<open>rightSupportM\<close>.\<close>

definition simpleReaction :: "jsnum \<Rightarrow> jsnum \<Rightarrow> jsnum \<times> jsnum \<Rightarrow> load \<Rightarrow> jsnum \<times> jsnum" where
  "simpleReaction l r R ld =
     (let loadStartPositionM = toM (startPosition ld) in
      case type ld of
        PointLoad \<Rightarrow>
          (jadd (fst R) (jdiv (jmul (magnitude ld) (jsub r loadStartPositionM)) (jsub r l)),
           jadd (snd R) (jdiv (jmul (magnitude ld) (jsub loadStartPositionM l)) (jsub r l)))
      | UniformLoad \<Rightarrow>
          (let loadEndPositionM = toM (num_of (endPosition ld));
               loadLengthM = jsub loadEndPositionM loadStartPositionM;
               totalLoad = jmul (magnitude ld) loadLengthM;
               loadCentroidM = jdiv (jadd loadStartPositionM loadEndPositionM) (Fin 2)
           in (jadd (fst R) (jdiv (jmul totalLoad (jsub r loadCentroidM)) (jsub r l)),
               jadd (snd R) (jdiv (jmul totalLoad (jsub loadCentroidM l)) (jsub r l)))))"

definition cantileverReaction :: "jsnum \<times> jsnum \<Rightarrow> load \<Rightarrow> jsnum \<times> jsnum" where
  "cantileverReaction R ld =
     (case type ld of
        PointLoad \<Rightarrow> (jadd (fst R) (magnitude ld), snd R)
      | UniformLoad \<Rightarrow>
          (let loadLengthM = toM (jsub (num_of (endPosition ld)) (startPosition ld))
           in (jadd (fst R) (jmul (magnitude ld) loadLengthM), snd R)))"

definition reactions :: "inputs \<Rightarrow> jsnum \<times> jsnum" where
  "reactions inp =
     (if beamType inp = ''Simple Beam''
        then foldl (simpleReaction (toM (leftSupport inp)) (toM (rightSupport inp)))
               (Fin 0, Fin 0) (loads inp)
      else if beamType inp = ''Cantilever Beam''
        then foldl cantileverReaction (Fin 0, Fin 0) (loads inp)
      else (Fin 0, Fin 0))"

definition R1 :: "inputs \<Rightarrow> jsnum" where
  "R1 inp = fst (reactions inp)"

definition R2 :: "inputs \<Rightarrow> jsnum" where
  "R2 inp = snd (reactions inp)"




definition maxShearForceN :: "inputs \<Rightarrow> jsnum" where
  "maxShearForceN inp = jmax (jabs (R1 inp)) (jabs (R2 inp))"

text \<open>The maximum shear force and bending moment (lines 394 to 424): a fold over the loads
  updates \<open>maxBendingMoment\<close>, started at 0. The argument \<open>r1\<close> is the reaction \<open>R1\<close>, \<open>l\<close> is \<open>leftSupportM\<close> and
  \<open>len\<close> is \<open>beamLengthM\<close>.\<close>

definition simpleMoment :: "jsnum \<Rightarrow> jsnum \<Rightarrow> jsnum \<Rightarrow> load \<Rightarrow> jsnum" where
  "simpleMoment r1 l m ld =
     (let loadStartPositionM = toM (startPosition ld) in
      case type ld of
        PointLoad \<Rightarrow>
          (let momentAtLoad = jmul r1 (jsub loadStartPositionM l)
           in jmax m momentAtLoad)
      | UniformLoad \<Rightarrow>
          (let loadEndPositionM = toM (num_of (endPosition ld));
               loadLengthM = jsub loadEndPositionM loadStartPositionM;
               momentAtStart =
                 jsub (jmul r1 (jsub loadStartPositionM l))
                      (jdiv (jmul (jmul (magnitude ld) loadLengthM)
                                  (jadd (jsub loadStartPositionM l) (jdiv loadLengthM (Fin 2))))
                            (Fin 2));
               momentAtEnd =
                 jsub (jmul r1 (jsub loadEndPositionM l))
                      (jdiv (jmul (jmul (magnitude ld) loadLengthM)
                                  (jsub (jsub loadEndPositionM l) (jdiv loadLengthM (Fin 2))))
                            (Fin 2))
           in jmax (jmax m momentAtStart) momentAtEnd))"

definition cantileverMoment :: "jsnum \<Rightarrow> jsnum \<Rightarrow> load \<Rightarrow> jsnum" where
  "cantileverMoment len m ld =
     (case type ld of
        PointLoad \<Rightarrow>
          (let momentAtFixed = jmul (magnitude ld) (jsub len (toM (startPosition ld)))
           in jmax m momentAtFixed)
      | UniformLoad \<Rightarrow>
          (let loadLengthM = toM (jsub (num_of (endPosition ld)) (startPosition ld));
               momentAtFixed =
                 jmul (jmul (magnitude ld) loadLengthM)
                      (jsub len (jdiv (jadd (toM (startPosition ld))
                                            (toM (num_of (endPosition ld)))) (Fin 2)))
           in jmax m momentAtFixed))"

definition maxBendingMomentNm :: "inputs \<Rightarrow> jsnum" where
  "maxBendingMomentNm inp =
     (if beamType inp = ''Simple Beam''
        then foldl (simpleMoment (R1 inp) (toM (leftSupport inp))) (Fin 0) (loads inp)
      else if beamType inp = ''Cantilever Beam''
        then foldl (cantileverMoment (toM (beamLength inp))) (Fin 0) (loads inp)
      else Fin 0)"

text \<open>The cross-sectional properties \<open>(area, momentOfInertia, sectionModulus)\<close> (lines
  430 to 459); the \<open>default\<close> of the switch is the rectangular section.\<close>

definition rectangularSection :: "inputs \<Rightarrow> jsnum \<times> jsnum \<times> jsnum" where
  "rectangularSection inp =
     (let widthM = toM (width inp); heightM = toM (height inp);
          area = jmul widthM heightM;
          momentOfInertia = jdiv (jmul widthM (jpow heightM 3)) (Fin 12);
          sectionModulus = jdiv momentOfInertia (jdiv heightM (Fin 2))
      in (area, momentOfInertia, sectionModulus))"

definition iBeamSection :: "inputs \<Rightarrow> jsnum \<times> jsnum \<times> jsnum" where
  "iBeamSection inp =
     (let heightM = toM (height inp); flangeWidthM = toM (flangeWidth inp);
          flangeThicknessM = toM (flangeThickness inp); webThicknessM = toM (webThickness inp);
          area = flangedArea inp;
          I_flange =
            jadd (jdiv (jmul flangeWidthM (jpow flangeThicknessM 3)) (Fin 6))
                 (jmul (jmul (jmul (Fin 2) flangeWidthM) flangeThicknessM)
                       (jpow (jdiv (jsub heightM flangeThicknessM) (Fin 2)) 2));
          I_web =
            jdiv (jmul webThicknessM (jpow (jsub heightM (jmul (Fin 2) flangeThicknessM)) 3))
                 (Fin 12);
          momentOfInertia = jadd (jmul (Fin 2) I_flange) I_web;
          sectionModulus = jdiv momentOfInertia (jdiv heightM (Fin 2))
      in (area, momentOfInertia, sectionModulus))"

definition cChannelSection :: "inputs \<Rightarrow> jsnum \<times> jsnum \<times> jsnum" where
  "cChannelSection inp =
     (let heightM = toM (height inp); flangeWidthM = toM (flangeWidth inp);
          flangeThicknessM = toM (flangeThickness inp); webThicknessM = toM (webThickness inp);
          area = flangedArea inp;
          I_flange_c =
            jadd (jdiv (jmul flangeWidthM (jpow flangeThicknessM 3)) (Fin 12))
                 (jmul (jmul flangeWidthM flangeThicknessM)
                       (jpow (jdiv (jsub heightM flangeThicknessM) (Fin 2)) 2));
          I_web_c =
            jdiv (jmul webThicknessM (jpow (jsub heightM (jmul (Fin 2) flangeThicknessM)) 3))
                 (Fin 12);
          momentOfInertia = jadd (jmul (Fin 2) I_flange_c) I_web_c;
          sectionModulus = jdiv momentOfInertia (jdiv heightM (Fin 2))
      in (area, momentOfInertia, sectionModulus))"

definition circularSection :: "inputs \<Rightarrow> jsnum \<times> jsnum \<times> jsnum" where
  "circularSection inp =
     (let diameterM = toM (diameter inp);
          area = jmul Math_PI (jpow (jdiv diameterM (Fin 2)) 2);
          momentOfInertia = jdiv (jmul Math_PI (jpow diameterM 4)) (Fin 64);
          sectionModulus = jdiv momentOfInertia (jdiv diameterM (Fin 2))
      in (area, momentOfInertia, sectionModulus))"

definition crossSection :: "inputs \<Rightarrow> jsnum \<times> jsnum \<times> jsnum" where
  "crossSection inp =
     (if beamCrossSection inp = ''Rectangular'' then rectangularSection inp
      else if beamCrossSection inp = ''I Beam'' then iBeamSection inp
      else if beamCrossSection inp = ''C Channel'' then cChannelSection inp
      else if beamCrossSection inp = ''Circular'' then circularSection inp
      else rectangularSection inp)"

definition areaM2 :: "inputs \<Rightarrow> jsnum" where
  "areaM2 inp = fst (crossSection inp)"

definition momentOfInertiaM4 :: "inputs \<Rightarrow> jsnum" where
  "momentOfInertiaM4 inp = fst (snd (crossSection inp))"

definition sectionModulusM3 :: "inputs \<Rightarrow> jsnum" where
  "sectionModulusM3 inp = snd (snd (crossSection inp))"

text \<open>The stresses in MPa (lines 462 and 463), and the yield strength of \<open>materialProps\<close>
  (line 427).\<close>

definition maxNormalStressMPa :: "inputs \<Rightarrow> jsnum" where
  "maxNormalStressMPa inp =
     jdiv (jdiv (maxBendingMomentNm inp) (sectionModulusM3 inp)) (Fin 1000000)"

definition maxShearStressMPa :: "inputs \<Rightarrow> jsnum" where
  "maxShearStressMPa inp =
     jdiv (jdiv (jmul (Fin (3 / 2)) (maxShearForceN inp)) (areaM2 inp)) (Fin 1000000)"

definition materialYieldStrength :: "inputs \<Rightarrow> jsnum" where
  "materialYieldStrength inp =
     (if material inp = Custom then yieldStrength (customMaterial inp)
      else yieldStrength (standardMaterials (material inp)))"

text \<open>\<open>calculateResults\<close>: \<open>setBeamWeight\<close> (line 361), then \<open>setResults\<close> (lines 465 to
  474), every value through \<open>Number(v.toFixed(d))\<close> in the order of the source.\<close>

definition calculateResults :: "inputs \<Rightarrow> error + outputs" where
  "calculateResults inp =
     bind_err (toFixedNum (beamWeightN inp) 2) (\<lambda>bw.
     bind_err (toFixedNum (maxShearForceN inp) 2) (\<lambda>v1.
     bind_err (toFixedNum (maxBendingMomentNm inp) 2) (\<lambda>v2.
     bind_err (toFixedNum (maxNormalStressMPa inp) 2) (\<lambda>v3.
     bind_err (toFixedNum (maxShearStressMPa inp) 2) (\<lambda>v4.
     bind_err (toFixedNum (jdiv (materialYieldStrength inp) (maxNormalStressMPa inp)) 2) (\<lambda>v5.
     bind_err (toFixedNum (jdiv (toM (beamLength inp)) (Fin 2)) 3) (\<lambda>v6.
     bind_err (toFixedNum (momentOfInertiaM4 inp) 6) (\<lambda>v7.
     bind_err (toFixedNum (sectionModulusM3 inp) 6) (\<lambda>v8.
       Inr \<lparr>beamWeight = bw,
            results = \<lparr>maxShearForce = v1, maxBendingMoment = v2, maxNormalStress = v3,
                       maxShearStress = v4, safetyFactor = v5, centerOfGravity = v6,
                       momentOfInertia = v7, sectionModulus = v8\<rparr>\<rparr>)))))))))"

section \<open>calculateDiagrams\<close>

text \<open>The diagrams (lines 477 to 575) are computed in millimetres. The reactions are
  computed again, from the positions as entered (lines 484 to 509).\<close>

definition numPoints :: nat where
  "numPoints = 100"

definition dx :: "inputs \<Rightarrow> jsnum" where
  "dx inp = jdiv (beamLength inp) (jsub (Fin (real numPoints)) (Fin 1))"

definition diagramSimpleReaction ::
    "jsnum \<Rightarrow> jsnum \<Rightarrow> jsnum \<times> jsnum \<Rightarrow> load \<Rightarrow> jsnum \<times> jsnum" where
  "diagramSimpleReaction l r R ld =
     (case type ld of
        PointLoad \<Rightarrow>
          (jadd (fst R) (jdiv (jmul (magnitude ld) (jsub r (startPosition ld))) (jsub r l)),
           jadd (snd R) (jdiv (jmul (magnitude ld) (jsub (startPosition ld) l)) (jsub r l)))
      | UniformLoad \<Rightarrow>
          (let loadLength = jsub (num_of (endPosition ld)) (startPosition ld);
               totalLoad = jmul (magnitude ld) loadLength;
               loadCentroid = jdiv (jadd (startPosition ld) (num_of (endPosition ld))) (Fin 2)
           in (jadd (fst R) (jdiv (jmul totalLoad (jsub r loadCentroid)) (jsub r l)),
               jadd (snd R) (jdiv (jmul totalLoad (jsub loadCentroid l)) (jsub r l)))))"

definition diagramCantileverReaction :: "jsnum \<times> jsnum \<Rightarrow> load \<Rightarrow> jsnum \<times> jsnum" where
  "diagramCantileverReaction R ld =
     (case type ld of
        PointLoad \<Rightarrow> (jadd (fst R) (magnitude ld), snd R)
      | UniformLoad \<Rightarrow>
          (let loadLength = jsub (num_of (endPosition ld)) (startPosition ld)
           in (jadd (fst R) (jmul (magnitude ld) loadLength), snd R)))"

definition diagramReactions :: "inputs \<Rightarrow> jsnum \<times> jsnum" where
  "diagramReactions inp =
     (if beamType inp = ''Simple Beam''
        then foldl (diagramSimpleReaction (leftSupport inp) (rightSupport inp))
               (Fin 0, Fin 0) (loads inp)
      else if beamType inp = ''Cantilever Beam''
        then foldl diagramCantileverReaction (Fin 0, Fin 0) (loads inp)
      else (Fin 0, Fin 0))"

text \<open>Simple beam, at the position \<open>xpos\<close> (lines 517 to 541): the shear and the moment are
  accumulated over the loads, in two \<open>forEach\<close> loops.\<close>

definition simpleShearStep :: "jsnum \<Rightarrow> jsnum \<Rightarrow> load \<Rightarrow> jsnum" where
  "simpleShearStep xpos shear ld =
     (if type ld = PointLoad \<and> jge xpos (startPosition ld)
        then jsub shear (magnitude ld)
      else if type ld = UniformLoad \<and> jge xpos (startPosition ld)
        then (let loadedLength = jmin (jsub xpos (startPosition ld))
                                      (jsub (num_of (endPosition ld)) (startPosition ld))
              in jsub shear (jmul (magnitude ld) loadedLength))
      else shear)"

definition simpleMomentStep :: "jsnum \<Rightarrow> jsnum \<Rightarrow> load \<Rightarrow> jsnum" where
  "simpleMomentStep xpos moment ld =
     (if type ld = PointLoad \<and> jgt xpos (startPosition ld)
        then jsub moment (jmul (magnitude ld) (jsub xpos (startPosition ld)))
      else if type ld = UniformLoad \<and> jgt xpos (startPosition ld)
        then (let loadedLength = jmin (jsub xpos (startPosition ld))
                                      (jsub (num_of (endPosition ld)) (startPosition ld));
                  loadCentroid = jadd (startPosition ld) (jdiv loadedLength (Fin 2))
              in jsub moment (jmul (jmul (magnitude ld) loadedLength) (jsub xpos loadCentroid)))
      else moment)"

definition simpleSample :: "inputs \<Rightarrow> jsnum \<Rightarrow> jsnum \<Rightarrow> jsnum \<Rightarrow> jsnum \<times> jsnum" where
  "simpleSample inp r1 r2 xpos =
     (let shear0 = (if jge xpos (leftSupport inp) then jadd (Fin 0) r1 else Fin 0);
          shear1 = (if jge xpos (rightSupport inp) then jsub shear0 r2 else shear0);
          shear = foldl (simpleShearStep xpos) shear1 (loads inp);
          moment0 = jmul r1 (jsub xpos (leftSupport inp));
          moment1 = (if jgt xpos (rightSupport inp)
                     then jsub moment0 (jmul r2 (jsub xpos (rightSupport inp))) else moment0);
          moment = foldl (simpleMomentStep xpos) moment1 (loads inp)
      in (shear, moment))"

text \<open>Cantilever beam, at the position \<open>xpos\<close> (lines 542 to 567): one \<open>forEach\<close> over the
  loads, in which every branch assigns \<open>shear\<close> and \<open>moment\<close>.\<close>

definition cantileverStep :: "inputs \<Rightarrow> jsnum \<Rightarrow> jsnum \<times> jsnum \<Rightarrow> load \<Rightarrow> jsnum \<times> jsnum" where
  "cantileverStep inp xpos sm ld =
     (case type ld of
        PointLoad \<Rightarrow>
          (if jle xpos (startPosition ld)
             then (jneg (magnitude ld),
                   jmul (jneg (magnitude ld)) (jsub (beamLength inp) (startPosition ld)))
           else (Fin 0, Fin 0))
      | UniformLoad \<Rightarrow>
          (let loadLength = jsub (num_of (endPosition ld)) (startPosition ld) in
           if jle xpos (startPosition ld)
             then (jmul (jneg (magnitude ld)) loadLength,
                   jmul (jmul (jneg (magnitude ld)) loadLength)
                        (jsub (beamLength inp)
                              (jdiv (jadd (startPosition ld) (num_of (endPosition ld))) (Fin 2))))
           else if jgt xpos (startPosition ld) \<and> jlt xpos (num_of (endPosition ld))
             then (let remainingLength = jsub (num_of (endPosition ld)) xpos
                   in (jmul (jneg (magnitude ld)) remainingLength,
                       jdiv (jmul (jmul (jneg (magnitude ld)) remainingLength) remainingLength)
                            (Fin 2)))
           else (Fin 0, Fin 0)))"

definition sample :: "inputs \<Rightarrow> jsnum \<Rightarrow> jsnum \<Rightarrow> jsnum \<Rightarrow> jsnum \<times> jsnum" where
  "sample inp r1 r2 xpos =
     (if beamType inp = ''Simple Beam'' then simpleSample inp r1 r2 xpos
      else if beamType inp = ''Cantilever Beam''
        then foldl (cantileverStep inp xpos) (Fin 0, Fin 0) (loads inp)
      else (Fin 0, Fin 0))"

text \<open>The body of the \<open>for\<close> loop at the index \<open>i\<close>: the two samples that are pushed (lines
  569 and 570).\<close>

definition samplesAt :: "inputs \<Rightarrow> jsnum \<Rightarrow> jsnum \<Rightarrow> nat \<Rightarrow> error + (point \<times> point)" where
  "samplesAt inp r1 r2 i =
     (let xpos = jmul (Fin (real i)) (dx inp);
          sm = sample inp r1 r2 xpos
      in bind_err (toFixedNum xpos 2) (\<lambda>xs.
         bind_err (toFixedNum (fst sm) 2) (\<lambda>ys.
         bind_err (toFixedNum xpos 2) (\<lambda>xm.
         bind_err (toFixedNum (snd sm) 2) (\<lambda>ym.
           Inr ((xs, ys), (xm, ym)))))))"

function diagramLoop ::
    "inputs \<Rightarrow> jsnum \<Rightarrow> jsnum \<Rightarrow> nat \<Rightarrow> point list \<times> point list
       \<Rightarrow> error + (point list \<times> point list)" where
  "diagramLoop inp r1 r2 i acc =
     (if i < numPoints
        then (case samplesAt inp r1 r2 i of
                Inl e \<Rightarrow> Inl e
              | Inr pq \<Rightarrow>
                  diagramLoop inp r1 r2 (Suc i) (fst acc @ [fst pq], snd acc @ [snd pq]))
      else Inr acc)"
  by pat_completeness auto
termination
  by (relation "measure (\<lambda>(inp, r1, r2, i, acc). numPoints - i)") auto

text \<open>\<open>calculateDiagrams\<close> returns \<open>(shearForceData, bendingMomentData)\<close>.\<close>

definition calculateDiagrams :: "inputs \<Rightarrow> error + (point list \<times> point list)" where
  "calculateDiagrams inp =
     diagramLoop inp (fst (diagramReactions inp)) (snd (diagramReactions inp)) 0 ([], [])"

text \<open>The two samples pushed at the index \<open>i\<close>, as values.\<close>

definition shearPoint :: "inputs \<Rightarrow> jsnum \<Rightarrow> jsnum \<Rightarrow> nat \<Rightarrow> point" where
  "shearPoint inp r1 r2 i =
     (toFixedVal 2 (jmul (Fin (real i)) (dx inp)),
      toFixedVal 2 (fst (sample inp r1 r2 (jmul (Fin (real i)) (dx inp)))))"

definition momentPoint :: "inputs \<Rightarrow> jsnum \<Rightarrow> jsnum \<Rightarrow> nat \<Rightarrow> point" where
  "momentPoint inp r1 r2 i =
     (toFixedVal 2 (jmul (Fin (real i)) (dx inp)),
      toFixedVal 2 (snd (sample inp r1 r2 (jmul (Fin (real i)) (dx inp)))))"

declare diagramLoop.simps [simp del]

section \<open>The initial state of the component\<close>

text \<open>The \<open>useState\<close> defaults of \<open>BeamLoadCalculator\<close>; the example inputs below are
  updates of it.\<close>

definition initialState :: inputs where
  "initialState =
     \<lparr>beamType = ''Simple Beam'', beamCrossSection = ''Rectangular'', beamLength = Fin 1000,
      leftSupport = Fin 0, rightSupport = Fin 1000,
      loads = [\<lparr>type = PointLoad, magnitude = Fin 1000, startPosition = Fin 500,
                endPosition = None\<rparr>],
      material = ASTM_A36,
      customMaterial = \<lparr>yieldStrength = Fin 0, elasticModulus = Fin 0, density = Fin 0\<rparr>,
      width = Fin 100, height = Fin 200, flangeWidth = Fin 100, flangeThickness = Fin 10,
      webThickness = Fin 6, diameter = Fin 100, beamDensity = Fin 7850\<rparr>"

text \<open>A midspan load that bends a 120 mm by 100 mm rectangular section to 50 MPa, and
  an upward load on the initial beam.\<close>

definition stress50 :: inputs where
  "stress50 =
     initialState\<lparr>width := Fin 120, height := Fin 100,
       loads := [\<lparr>type = PointLoad, magnitude = Fin 40000, startPosition = Fin 500,
                  endPosition = None\<rparr>]\<rparr>"

definition upwardLoad :: inputs where
  "upwardLoad =
     initialState\<lparr>loads := [\<lparr>type = PointLoad, magnitude = Fin (- 1000), startPosition = Fin 500,
                  endPosition = None\<rparr>]\<rparr>"


text \<open>A cantilever beam with two loads.\<close>

definition twoLoadCantilever :: inputs where
  "twoLoadCantilever =
     initialState\<lparr>beamType := ''Cantilever Beam'',
       loads := [\<lparr>type = PointLoad, magnitude = Fin 1000, startPosition = Fin 500,
                  endPosition = None\<rparr>,
                 \<lparr>type = UniformLoad, magnitude = Fin 2, startPosition = Fin 200,
                  endPosition = Some (Fin 400)\<rparr>]\<rparr>"

text \<open>Two point loads at the quarter points of the initial beam.\<close>

definition twoPointLoads :: inputs where
  "twoPointLoads =
     initialState\<lparr>loads := [\<lparr>type = PointLoad, magnitude = Fin 1000, startPosition = Fin 250,
                  endPosition = None\<rparr>,
                 \<lparr>type = PointLoad, magnitude = Fin 1000, startPosition = Fin 750,
                  endPosition = None\<rparr>]\<rparr>"

text \<open>An upward point load on an overhang, and a load switched to a uniform load whose
  end position has not been entered.\<close>

definition overhangUpwardLoad :: inputs where
  "overhangUpwardLoad =
     initialState\<lparr>leftSupport := Fin 500,
       loads := [\<lparr>type = PointLoad, magnitude = Fin (- 1000), startPosition = Fin 0,
                  endPosition = None\<rparr>]\<rparr>"

definition uniformWithoutEnd :: inputs where
  "uniformWithoutEnd =
     initialState\<lparr>loads := [\<lparr>type = UniformLoad, magnitude = Fin 1000, startPosition = Fin 500,
                  endPosition = None\<rparr>]\<rparr>"

section \<open>The bending moment in the words of the specification\<close>

text \<open>
  The specification describes the maximum moment of a simple beam through the moment
  function \<open>M(x) = R1 * (x - left) - \<Sigma>(load contributions up to x)\<close>, evaluated at the
  application point of each point load and at both ends of each uniform load. Here a load
  contributes at \<open>x\<close> once it is applied left of \<open>x\<close>: a point load \<open>P\<close> at \<open>a\<close> contributes
  \<open>P * (x - a)\<close>, and a uniform load \<open>w\<close> from \<open>a\<close> contributes its part \<open>c\<close> left of \<open>x\<close>, acting
  at the middle of that part, \<open>w * c * (x - (a + c / 2))\<close>; these are the contributions that
  \<open>calculateDiagrams\<close> subtracts. Positions are in metres. \<open>Math.max()\<close> of no argument is
  \<open>-Infinity\<close>.
\<close>

definition specContribution :: "jsnum \<Rightarrow> load \<Rightarrow> jsnum" where
  "specContribution xM ld =
     (let a = toM (startPosition ld) in
      if jgt xM a
        then (case type ld of
                PointLoad \<Rightarrow> jmul (magnitude ld) (jsub xM a)
              | UniformLoad \<Rightarrow>
                  (let c = jmin (jsub xM a) (jsub (toM (num_of (endPosition ld))) a)
                   in jmul (jmul (magnitude ld) c) (jsub xM (jadd a (jdiv c (Fin 2))))))
      else Fin 0)"

definition specMoment :: "inputs \<Rightarrow> jsnum \<Rightarrow> jsnum" where
  "specMoment inp xM =
     jsub (jmul (R1 inp) (jsub xM (toM (leftSupport inp))))
          (foldl (\<lambda>s ld. jadd s (specContribution xM ld)) (Fin 0) (loads inp))"

definition specEvaluationPoints :: "load \<Rightarrow> jsnum list" where
  "specEvaluationPoints ld =
     (case type ld of
        PointLoad \<Rightarrow> [toM (startPosition ld)]
      | UniformLoad \<Rightarrow> [toM (startPosition ld), toM (num_of (endPosition ld))])"

fun jmaxList :: "jsnum list \<Rightarrow> jsnum" where
  "jmaxList [] = NInf"
| "jmaxList (m # ms) = jmax m (jmaxList ms)"

definition specMaxMoment :: "inputs \<Rightarrow> jsnum" where
  "specMaxMoment inp =
     jmaxList (map (specMoment inp) (concat (map specEvaluationPoints (loads inp))))"

section \<open>Predicates on loads\<close>

text \<open>A load whose numbers are finite (a uniform load has an end position), and a point
  load of finite magnitude at most 0 placed between the positions \<open>a\<close> and \<open>b\<close> (in
  millimetres).\<close>

definition finiteLoad :: "load \<Rightarrow> bool" where
  "finiteLoad ld =
     (is_fin (magnitude ld) \<and> is_fin (startPosition ld) \<and>
      (type ld = PointLoad \<or> is_fin (num_of (endPosition ld))))"

definition nonPositiveLoadOn :: "real \<Rightarrow> real \<Rightarrow> load \<Rightarrow> bool" where
  "nonPositiveLoadOn a b ld =
     (type ld = PointLoad \<and> is_fin (magnitude ld) \<and> rv (magnitude ld) \<le> 0 \<and>
      is_fin (startPosition ld) \<and> a \<le> rv (startPosition ld) \<and> rv (startPosition ld) \<le> b)"

section \<open>The exponent of a number\<close>

text \<open>\<open>expo\<close> is the exponent, and the test for overflow in \<open>fl\<close> is the comparison with
  \<open>2^1024\<close>.\<close>

lemma pow2_pos: "0 < pow2 k"
  by (simp add: pow2_def)

lemma pow2_Suc: "pow2 (k + 1) = 2 * pow2 k"
proof (cases "0 \<le> k")
  case True
  then show ?thesis by (simp add: pow2_def nat_add_distrib)
next
  case False
  then have "nat (- k) = Suc (nat (- (k + 1)))" by simp
  then show ?thesis using False by (simp add: pow2_def)
qed

lemma expo_bounds:
  assumes "v \<noteq> 0"
  shows "pow2 (expo v) \<le> \<bar>v\<bar> \<and> \<bar>v\<bar> < pow2 (expo v + 1)"
proof (cases "1 \<le> \<bar>v\<bar>")
  case True
  define n where "n = \<lfloor>\<bar>v\<bar>\<rfloor>"
  have n: "0 < n" using True by (simp add: n_def)
  then have b1: "1 \<le> bitlen n" by (simp add: bitlen_alt_def)
  have bb: "2 ^ nat (bitlen n - 1) \<le> n" "n < 2 ^ nat (bitlen n)"
    using bitlen_bounds [OF n] by simp_all
  have e: "expo v = bitlen n - 1" using True by (simp add: expo_def n_def)
  have "real_of_int (2 ^ nat (bitlen n - 1)) \<le> real_of_int n"
    using bb(1) by (rule of_int_le_iff [THEN iffD2])
  also have "\<dots> \<le> \<bar>v\<bar>" by (simp add: n_def)
  finally have lo: "pow2 (expo v) \<le> \<bar>v\<bar>"
    using b1 by (simp add: e pow2_def)
  have "n + 1 \<le> 2 ^ nat (bitlen n)" using bb(2) by simp
  then have "real_of_int (n + 1) \<le> real_of_int (2 ^ nat (bitlen n))"
    by (rule of_int_le_iff [THEN iffD2])
  moreover have "\<bar>v\<bar> < real_of_int (n + 1)"
    unfolding n_def by linarith
  ultimately have hi: "\<bar>v\<bar> < pow2 (expo v + 1)"
    using b1 by (simp add: e pow2_def)
  show ?thesis using lo hi by simp
next
  case False
  define y where "y = 1 / \<bar>v\<bar>"
  define m where "m = \<lceil>y\<rceil> - 1"
  have v: "0 < \<bar>v\<bar>" "\<bar>v\<bar> < 1" using assms False by simp_all
  have y: "1 < y" using v by (simp add: y_def)
  have m: "0 < m" using y unfolding m_def by linarith
  then have b1: "1 \<le> bitlen m" by (simp add: bitlen_alt_def)
  have bb: "2 ^ nat (bitlen m - 1) \<le> m" "m < 2 ^ nat (bitlen m)"
    using bitlen_bounds [OF m] by simp_all
  have e: "expo v = - bitlen m" using False by (simp add: expo_def m_def y_def)
  have my: "real_of_int m < y" "y \<le> real_of_int m + 1"
    unfolding m_def by linarith+
  have "real_of_int (2 ^ nat (bitlen m - 1)) \<le> real_of_int m"
    using bb(1) by (rule of_int_le_iff [THEN iffD2])
  then have "(2::real) ^ nat (bitlen m - 1) \<le> real_of_int m" by simp
  then have "(2::real) ^ nat (bitlen m - 1) < y" using my(1) by linarith
  then have "\<bar>v\<bar> * 2 ^ nat (bitlen m - 1) < 1"
    using v(1) by (simp add: y_def field_simps)
  then have "\<bar>v\<bar> < 1 / 2 ^ nat (bitlen m - 1)"
    by (simp add: pos_less_divide_eq)
  moreover have "pow2 (expo v + 1) = 1 / 2 ^ nat (bitlen m - 1)"
  proof (cases "bitlen m = 1")
    case True
    then show ?thesis by (simp add: e pow2_def)
  next
    case False
    then have "\<not> 0 \<le> - bitlen m + 1" using b1 by simp
    moreover have "- (- bitlen m + 1) = bitlen m - 1" by simp
    ultimately show ?thesis by (simp add: e pow2_def)
  qed
  ultimately have hi: "\<bar>v\<bar> < pow2 (expo v + 1)"
    by simp
  have "m + 1 \<le> 2 ^ nat (bitlen m)" using bb(2) by simp
  then have "real_of_int (m + 1) \<le> real_of_int (2 ^ nat (bitlen m))"
    by (rule of_int_le_iff [THEN iffD2])
  then have "real_of_int m + 1 \<le> (2::real) ^ nat (bitlen m)" by simp
  then have "y \<le> 2 ^ nat (bitlen m)" using my(2) by linarith
  then have "1 \<le> \<bar>v\<bar> * 2 ^ nat (bitlen m)"
    using v(1) by (simp add: y_def field_simps)
  then have lo: "pow2 (expo v) \<le> \<bar>v\<bar>"
    using b1 by (simp add: e pow2_def field_simps)
  show ?thesis using lo hi by simp
qed


lemma pow2_mono: "j \<le> k \<Longrightarrow> pow2 j \<le> pow2 k"
proof (induction "nat (k - j)" arbitrary: k)
  case 0
  then show ?case by simp
next
  case (Suc n)
  then have "n = nat (k - 1 - j)" "j \<le> k - 1" by simp_all
  then have "pow2 j \<le> pow2 (k - 1)" by (rule Suc.hyps(1))
  also have "\<dots> \<le> pow2 k"
    using pow2_Suc [of "k - 1"] pow2_pos [of "k - 1"] by simp
  finally show ?case .
qed

lemma overflow_iff:
  assumes "w \<noteq> 0"
  shows "1024 \<le> expo w \<longleftrightarrow> 2 ^ 1024 \<le> \<bar>w\<bar>"
proof
  assume "1024 \<le> expo w"
  then have "pow2 1024 \<le> pow2 (expo w)" by (rule pow2_mono)
  also have "\<dots> \<le> \<bar>w\<bar>" using expo_bounds [OF assms] by simp
  finally show "2 ^ 1024 \<le> \<bar>w\<bar>" by (simp add: pow2_def)
next
  assume a: "2 ^ 1024 \<le> \<bar>w\<bar>"
  show "1024 \<le> expo w"
  proof (rule ccontr)
    assume "\<not> 1024 \<le> expo w"
    then have "expo w + 1 \<le> 1024" by simp
    then have "pow2 (expo w + 1) \<le> pow2 1024" by (rule pow2_mono)
    moreover have "\<bar>w\<bar> < pow2 (expo w + 1)" using expo_bounds [OF assms] by simp
    ultimately have "\<bar>w\<bar> < pow2 1024" by simp
    then show False using a by (simp add: pow2_def)
  qed
qed

section \<open>Arithmetic on finite numbers\<close>

text \<open>On finite operands the operations are the real ones; only a division by zero
  leaves the finite numbers.\<close>

lemma is_fin_iff: "is_fin a \<longleftrightarrow> a = Fin (rv a) \<or> a = NZero"
  by (cases a) auto

lemma is_fin_simps [simp]:
  "is_fin a \<Longrightarrow> a \<noteq> NaN" "is_fin a \<Longrightarrow> \<not> is_inf a" "is_fin a \<Longrightarrow> cls a = 0"
  "is_fin a \<Longrightarrow> is_zero a = (rv a = 0)"
  by (cases a; simp)+

lemma is_fin_szero [simp]: "is_fin (szero s)" "rv (szero s) = 0"
  by (simp_all add: szero_def)

lemma is_fin_mk [simp]: "is_fin (mk s r)" "rv (mk s r) = r"
  by (simp_all add: mk_def)

lemma jneg_fin [simp]: "is_fin a \<Longrightarrow> is_fin (jneg a)" "is_fin a \<Longrightarrow> rv (jneg a) = - rv a"
  by (cases a; simp)+

lemma jadd_fin [simp]:
  "is_fin a \<Longrightarrow> is_fin b \<Longrightarrow> is_fin (jadd a b)"
  "is_fin a \<Longrightarrow> is_fin b \<Longrightarrow> rv (jadd a b) = rv a + rv b"
  by (simp_all add: jadd_def)

lemma jsub_fin [simp]:
  "is_fin a \<Longrightarrow> is_fin b \<Longrightarrow> is_fin (jsub a b)"
  "is_fin a \<Longrightarrow> is_fin b \<Longrightarrow> rv (jsub a b) = rv a - rv b"
  by (simp_all add: jsub_def)

lemma jmul_fin [simp]:
  "is_fin a \<Longrightarrow> is_fin b \<Longrightarrow> is_fin (jmul a b)"
  "is_fin a \<Longrightarrow> is_fin b \<Longrightarrow> rv (jmul a b) = rv a * rv b"
  by (simp_all add: jmul_def)

lemma jdiv_fin [simp]:
  "is_fin a \<Longrightarrow> is_fin b \<Longrightarrow> rv b \<noteq> 0 \<Longrightarrow> is_fin (jdiv a b)"
  "is_fin a \<Longrightarrow> is_fin b \<Longrightarrow> rv b \<noteq> 0 \<Longrightarrow> rv (jdiv a b) = rv a / rv b"
  by (simp_all add: jdiv_def)

lemma jabs_fin [simp]: "is_fin a \<Longrightarrow> is_fin (jabs a)" "is_fin a \<Longrightarrow> rv (jabs a) = \<bar>rv a\<bar>"
  by (cases a; simp)+

lemma jmax_fin [simp]:
  "is_fin a \<Longrightarrow> is_fin b \<Longrightarrow> is_fin (jmax a b)"
  "is_fin a \<Longrightarrow> is_fin b \<Longrightarrow> rv (jmax a b) = max (rv a) (rv b)"
  by (auto simp: jmax_def jlt_def)

lemma jmin_fin [simp]:
  "is_fin a \<Longrightarrow> is_fin b \<Longrightarrow> is_fin (jmin a b)"
  "is_fin a \<Longrightarrow> is_fin b \<Longrightarrow> rv (jmin a b) = min (rv a) (rv b)"
  by (auto simp: jmin_def jlt_def)

lemma toM_fin [simp]: "is_fin a \<Longrightarrow> is_fin (toM a)" "is_fin a \<Longrightarrow> rv (toM a) = rv a / 1000"
  by (simp_all add: toM_def)

lemma jeq_fin: "is_fin a \<Longrightarrow> is_fin b \<Longrightarrow> jeq a b \<longleftrightarrow> rv a = rv b"
  by (simp add: jeq_def)

lemma jlt_fin: "is_fin a \<Longrightarrow> is_fin b \<Longrightarrow> jlt a b \<longleftrightarrow> rv a < rv b"
  by (simp add: jlt_def)

lemma jle_fin: "is_fin a \<Longrightarrow> is_fin b \<Longrightarrow> jle a b \<longleftrightarrow> rv a \<le> rv b"
  by (simp add: jle_def)

lemma toFixedVal_fin [simp]: "is_fin a \<Longrightarrow> is_fin (toFixedVal d a)"
  by (cases a) simp_all


text \<open>Both functions return: no \<open>toFixed\<close> is called with more than 100 digits.\<close>

lemma samplesAt_Inr:
  "samplesAt inp r1 r2 i = Inr (shearPoint inp r1 r2 i, momentPoint inp r1 r2 i)"
  by (simp add: samplesAt_def shearPoint_def momentPoint_def toFixedNum_def bind_err_def Let_def)

lemma diagramLoop_Inr:
  "i \<le> numPoints \<Longrightarrow>
   diagramLoop inp r1 r2 i acc =
     Inr (fst acc @ map (shearPoint inp r1 r2) [i..<numPoints],
          snd acc @ map (momentPoint inp r1 r2) [i..<numPoints])"
proof (induction "numPoints - i" arbitrary: i acc)
  case 0
  then have "i = numPoints" by simp
  then show ?case by (subst diagramLoop.simps) simp
next
  case (Suc n)
  then have lt: "i < numPoints" and n: "n = numPoints - Suc i" and le: "Suc i \<le> numPoints"
    by simp_all
  have "diagramLoop inp r1 r2 i acc =
          diagramLoop inp r1 r2 (Suc i)
            (fst acc @ [shearPoint inp r1 r2 i], snd acc @ [momentPoint inp r1 r2 i])"
    using lt by (subst diagramLoop.simps) (simp add: samplesAt_Inr)
  also have "\<dots> = Inr (fst acc @ map (shearPoint inp r1 r2) [i..<numPoints],
                        snd acc @ map (momentPoint inp r1 r2) [i..<numPoints])"
    using Suc.hyps(1) [OF n le] lt by (simp add: upt_conv_Cons)
  finally show ?case .
qed

lemma calculateDiagrams_Inr:
  "calculateDiagrams inp =
     Inr (map (shearPoint inp (fst (diagramReactions inp)) (snd (diagramReactions inp)))
            [0..<numPoints],
          map (momentPoint inp (fst (diagramReactions inp)) (snd (diagramReactions inp)))
            [0..<numPoints])"
  by (simp add: calculateDiagrams_def diagramLoop_Inr)

lemma calculateResults_Inr:
  "calculateResults inp =
     Inr \<lparr>beamWeight = toFixedVal 2 (beamWeightN inp),
          results =
            \<lparr>maxShearForce = toFixedVal 2 (maxShearForceN inp),
             maxBendingMoment = toFixedVal 2 (maxBendingMomentNm inp),
             maxNormalStress = toFixedVal 2 (maxNormalStressMPa inp),
             maxShearStress = toFixedVal 2 (maxShearStressMPa inp),
             safetyFactor =
               toFixedVal 2 (jdiv (materialYieldStrength inp) (maxNormalStressMPa inp)),
             centerOfGravity = toFixedVal 3 (jdiv (toM (beamLength inp)) (Fin 2)),
             momentOfInertia = toFixedVal 6 (momentOfInertiaM4 inp),
             sectionModulus = toFixedVal 6 (sectionModulusM3 inp)\<rparr>\<rparr>"
  by (simp add: calculateResults_def toFixedNum_def bind_err_def)

lemma jpow_fin [simp]: "is_fin a \<Longrightarrow> is_fin (jpow a n)" "is_fin a \<Longrightarrow> rv (jpow a n) = rv a ^ n"
  by (induction n) simp_all



lemma jdiv_by_zero: "is_zero b \<Longrightarrow> is_inf (jdiv a b) \<or> jdiv a b = NaN"
  by (cases a; cases b) (simp_all add: jdiv_def sinf_def)

lemma jdiv_zero_by: "is_zero a \<Longrightarrow> b \<noteq> NaN \<Longrightarrow> \<not> is_zero b \<Longrightarrow> is_zero (jdiv a b)"
  by (cases a; cases b) (simp_all add: jdiv_def szero_def mk_def)

lemma toFixedVal_is_zero: "is_zero a \<Longrightarrow> toFixedVal d a = Fin 0"
  by (cases a) simp_all




lemma jmax_nonneg:
  "a = NaN \<or> jle (Fin 0) a \<Longrightarrow> jmax a b = NaN \<or> jle (Fin 0) (jmax a b)"
  by (cases a; cases b) (auto simp: jmax_def jlt_def jle_def)

lemma toFixedVal_nonneg:
  "a = NaN \<or> jle (Fin 0) a \<Longrightarrow> toFixedVal d a = NaN \<or> jle (Fin 0) (toFixedVal d a)"
  by (cases a) (auto simp: jle_def)

lemma jmax_zero_nonpos: "is_fin c \<Longrightarrow> rv c \<le> 0 \<Longrightarrow> jmax (Fin 0) c = Fin 0"
  by (cases c) (auto simp: jmax_def jlt_def)

section \<open>Properties of calculateResults\<close>






text \<open>
  Claim C2. For a cantilever beam with exactly one point load of finite magnitude \<open>P\<close>
  placed at the free end (\<open>startPosition\<close> equal to the beam length), \<open>R1 == P\<close> holds,
  but the moment is computed with the arm \<open>beamLengthM - startPosition / 1000\<close>, which is
  zero there: \<open>maxBendingMoment\<close> is 0 and not \<open>P * length\<close>.
\<close>

theorem cantilever_free_end_load:
  assumes "beamType inp = ''Cantilever Beam''" and "loads inp = [ld]" and "type ld = PointLoad"
    and "is_fin (magnitude ld)" and "is_fin (beamLength inp)"
    and "startPosition ld = beamLength inp"
  shows "jeq (R1 inp) (magnitude ld) \<and> maxBendingMomentNm inp = Fin 0 \<and>
         (\<exists>out. calculateResults inp = Inr out \<and> maxBendingMoment (results out) = Fin 0)"
proof -
  have r: "R1 inp = jadd (Fin 0) (magnitude ld)"
    using assms(1-3) by (simp add: R1_def reactions_def cantileverReaction_def)
  have e: "jeq (R1 inp) (magnitude ld)"
    unfolding r using assms(4) by (simp add: jeq_fin)
  let ?arm = "jsub (toM (beamLength inp)) (toM (startPosition ld))"
  have arm: "is_fin ?arm" "rv ?arm = 0"
    using assms(5,6) by simp_all
  have m: "maxBendingMomentNm inp = jmax (Fin 0) (jmul (magnitude ld) ?arm)"
    using assms(1-3) by (simp add: maxBendingMomentNm_def cantileverMoment_def)
  have "is_fin (jmul (magnitude ld) ?arm)" "rv (jmul (magnitude ld) ?arm) = 0"
    using assms(4) arm by simp_all
  then have "jmax (Fin 0) (jmul (magnitude ld) ?arm) = Fin 0"
    by (simp add: jmax_def jlt_def)
  then have z: "maxBendingMomentNm inp = Fin 0" using m by simp
  then show ?thesis using e by (simp add: calculateResults_Inr)
qed

theorem cantilever_free_end_load_witness:
  "startPosition \<lparr>type = PointLoad, magnitude = Fin 1000, startPosition = Fin 1000, endPosition = None\<rparr>
     = beamLength initialState \<and>
   jeq (R1 (initialState\<lparr>beamType := ''Cantilever Beam'',
          loads := [\<lparr>type = PointLoad, magnitude = Fin 1000, startPosition = Fin 1000,
                     endPosition = None\<rparr>]\<rparr>)) (Fin 1000) \<and>
   maxBendingMomentNm (initialState\<lparr>beamType := ''Cantilever Beam'',
          loads := [\<lparr>type = PointLoad, magnitude = Fin 1000, startPosition = Fin 1000,
                     endPosition = None\<rparr>]\<rparr>) = Fin 0 \<and>
   jmul (Fin 1000) (toM (beamLength initialState)) = Fin 1000"
proof -
  let ?ld = "\<lparr>type = PointLoad, magnitude = Fin 1000, startPosition = Fin 1000, endPosition = None\<rparr>"
  let ?inp = "initialState\<lparr>beamType := ''Cantilever Beam'', loads := [?ld]\<rparr>"
  have h: "beamType ?inp = ''Cantilever Beam''" "loads ?inp = [?ld]" "type ?ld = PointLoad"
    "is_fin (magnitude ?ld)" "is_fin (beamLength ?inp)" "startPosition ?ld = beamLength ?inp"
    by (simp_all add: initialState_def)
  have "jmul (Fin 1000) (toM (beamLength initialState)) = Fin 1000"
    by (simp add: initialState_def toM_def jdiv_def jmul_def mk_def)
  then show ?thesis
    using cantilever_free_end_load [OF h] by (simp add: initialState_def)
qed

text \<open>
  Claim C4. With the dimensions converted from millimetres to metres, the moment of inertia
  of an I beam is \<open>2 * I_flange + tw * (h - 2 tf)^3 / 12\<close> with
  \<open>I_flange = bf * tf^3 / 6 + 2 * bf * tf * ((h - tf) / 2)^2\<close>, that of a C channel is the
  same with \<open>I_flange = bf * tf^3 / 12 + bf * tf * ((h - tf) / 2)^2\<close>, and in both cases the
  section modulus is \<open>I / (h / 2)\<close>; the results report both rounded to 6 decimals.
\<close>

theorem flange_inertia_formulas:
  assumes "is_fin (flangeWidth inp)" and "is_fin (flangeThickness inp)"
    and "is_fin (webThickness inp)" and "is_fin (height inp)" and "rv (height inp) \<noteq> 0"
    and "bf = rv (flangeWidth inp) / 1000" and "tf = rv (flangeThickness inp) / 1000"
    and "tw = rv (webThickness inp) / 1000" and "h = rv (height inp) / 1000"
  shows "(beamCrossSection inp = ''I Beam'' \<longrightarrow>
            is_fin (momentOfInertiaM4 inp) \<and> is_fin (sectionModulusM3 inp) \<and>
            rv (momentOfInertiaM4 inp) =
              2 * (bf * tf ^ 3 / 6 + 2 * bf * tf * ((h - tf) / 2) ^ 2) + tw * (h - 2 * tf) ^ 3 / 12 \<and>
            rv (sectionModulusM3 inp) = rv (momentOfInertiaM4 inp) / (h / 2)) \<and>
         (beamCrossSection inp = ''C Channel'' \<longrightarrow>
            is_fin (momentOfInertiaM4 inp) \<and> is_fin (sectionModulusM3 inp) \<and>
            rv (momentOfInertiaM4 inp) =
              2 * (bf * tf ^ 3 / 12 + bf * tf * ((h - tf) / 2) ^ 2) + tw * (h - 2 * tf) ^ 3 / 12 \<and>
            rv (sectionModulusM3 inp) = rv (momentOfInertiaM4 inp) / (h / 2)) \<and>
         (\<exists>out. calculateResults inp = Inr out \<and>
            momentOfInertia (results out) = toFixedVal 6 (momentOfInertiaM4 inp) \<and>
            sectionModulus (results out) = toFixedVal 6 (sectionModulusM3 inp))"
proof -
  have h2: "is_fin (jdiv (toM (height inp)) (Fin 2))" "rv (jdiv (toM (height inp)) (Fin 2)) \<noteq> 0"
    using assms(4,5) by simp_all
  have i: "is_fin (momentOfInertiaM4 inp) \<and> is_fin (sectionModulusM3 inp) \<and>
            rv (momentOfInertiaM4 inp) =
              2 * (bf * tf ^ 3 / 6 + 2 * bf * tf * ((h - tf) / 2) ^ 2) + tw * (h - 2 * tf) ^ 3 / 12 \<and>
            rv (sectionModulusM3 inp) = rv (momentOfInertiaM4 inp) / (h / 2)"
    if "beamCrossSection inp = ''I Beam''"
    unfolding assms(6-9) using that assms(1-4) h2
    by (simp add: momentOfInertiaM4_def sectionModulusM3_def crossSection_def iBeamSection_def
        Let_def)
  have c: "is_fin (momentOfInertiaM4 inp) \<and> is_fin (sectionModulusM3 inp) \<and>
            rv (momentOfInertiaM4 inp) =
              2 * (bf * tf ^ 3 / 12 + bf * tf * ((h - tf) / 2) ^ 2) + tw * (h - 2 * tf) ^ 3 / 12 \<and>
            rv (sectionModulusM3 inp) = rv (momentOfInertiaM4 inp) / (h / 2)"
    if "beamCrossSection inp = ''C Channel''"
    unfolding assms(6-9) using that assms(1-4) h2
    by (simp add: momentOfInertiaM4_def sectionModulusM3_def crossSection_def cChannelSection_def
        Let_def)
  show ?thesis
    using i c by (simp add: calculateResults_Inr)
qed

theorem flange_inertia_formulas_witness:
  "rv (height initialState) \<noteq> 0 \<and>
   rv (momentOfInertiaM4 (initialState\<lparr>beamCrossSection := ''I Beam''\<rparr>)) = 29287 / 750000000 \<and>
   rv (sectionModulusM3 (initialState\<lparr>beamCrossSection := ''I Beam''\<rparr>)) = 29287 / 75000000 \<and>
   rv (momentOfInertiaM4 (initialState\<lparr>beamCrossSection := ''C Channel''\<rparr>)) = 15737 / 750000000 \<and>
   rv (sectionModulusM3 (initialState\<lparr>beamCrossSection := ''C Channel''\<rparr>)) = 15737 / 75000000"
proof -
  let ?i = "initialState\<lparr>beamCrossSection := ''I Beam''\<rparr>"
  let ?c = "initialState\<lparr>beamCrossSection := ''C Channel''\<rparr>"
  have hi: "is_fin (flangeWidth ?i)" "is_fin (flangeThickness ?i)" "is_fin (webThickness ?i)"
    "is_fin (height ?i)" "rv (height ?i) \<noteq> 0"
    and hc: "is_fin (flangeWidth ?c)" "is_fin (flangeThickness ?c)" "is_fin (webThickness ?c)"
    "is_fin (height ?c)" "rv (height ?c) \<noteq> 0"
    by (simp_all add: initialState_def)
  have "rv (height initialState) \<noteq> 0" by (simp add: initialState_def)
  then show ?thesis
    using flange_inertia_formulas [OF hi refl refl refl refl]
      flange_inertia_formulas [OF hc refl refl refl refl]
    by (simp add: initialState_def power2_eq_square power3_eq_cube)
qed

text \<open>The stresses of the example inputs.\<close>

lemma stress50_stress: "maxNormalStressMPa stress50 = Fin 50"
  by code_simp

lemma stress50_custom_stress: "maxNormalStressMPa (stress50\<lparr>material := Custom\<rparr>) = Fin 50"
  by code_simp

lemma upwardLoad_stress: "maxNormalStressMPa upwardLoad = Fin 0"
  by code_simp

text \<open>
  Claim C7, as stated, fails where only the yield strength is zero: with the custom
  material left at its initial yield strength 0 and a normal stress of 50 MPa, the safety
  factor is \<open>0 / 50 = 0\<close>, neither infinite nor NaN.
\<close>

theorem zero_yield_gives_zero_safety_factor:
  "materialYieldStrength (stress50\<lparr>material := Custom\<rparr>) = Fin 0 \<and>
   maxNormalStressMPa (stress50\<lparr>material := Custom\<rparr>) = Fin 50 \<and>
   calculateResults (stress50\<lparr>material := Custom\<rparr>) =
     Inr \<lparr>beamWeight = Fin (9241 / 10),
          results = \<lparr>maxShearForce = Fin 20000, maxBendingMoment = Fin 10000,
                     maxNormalStress = Fin 50, maxShearStress = Fin (5 / 2),
                     safetyFactor = Fin 0, centerOfGravity = Fin (1 / 2),
                     momentOfInertia = Fin (1 / 100000), sectionModulus = Fin (1 / 5000)\<rparr>\<rparr>"
  by code_simp

text \<open>
  Claim C7, amended. \<open>safetyFactor\<close> is \<open>yieldStrength / maxNormalStress\<close> rounded to 2
  decimals, with \<open>maxNormalStress = (maxBendingMoment / sectionModulus) / 1e6\<close>; for ASTM A36
  steel (250 MPa) and a normal stress of 50 MPa it is 5; when the normal stress is zero it is
  infinite or NaN; when the yield strength is zero and the normal stress is a non-zero
  number it is 0.
\<close>

theorem safety_factor_formula:
  "\<exists>out. calculateResults inp = Inr out \<and>
     maxNormalStressMPa inp =
       jdiv (jdiv (maxBendingMomentNm inp) (sectionModulusM3 inp)) (Fin 1000000) \<and>
     safetyFactor (results out) =
       toFixedVal 2 (jdiv (materialYieldStrength inp) (maxNormalStressMPa inp)) \<and>
     (material inp = ASTM_A36 \<longrightarrow> materialYieldStrength inp = Fin 250) \<and>
     (material inp = ASTM_A36 \<and> jeq (maxNormalStressMPa inp) (Fin 50) \<longrightarrow>
        safetyFactor (results out) = Fin 5) \<and>
     (is_zero (maxNormalStressMPa inp) \<longrightarrow>
        is_inf (safetyFactor (results out)) \<or> safetyFactor (results out) = NaN) \<and>
     (is_zero (materialYieldStrength inp) \<and> maxNormalStressMPa inp \<noteq> NaN \<and>
      \<not> is_zero (maxNormalStressMPa inp) \<longrightarrow>
        safetyFactor (results out) = Fin 0)"
proof -
  let ?y = "materialYieldStrength inp" and ?s = "maxNormalStressMPa inp"
  have a36: "?y = Fin 250" if "material inp = ASTM_A36"
    using that by (simp add: materialYieldStrength_def)
  have five: "toFixedVal 2 (jdiv ?y ?s) = Fin 5" if "material inp = ASTM_A36" "jeq ?s (Fin 50)"
  proof -
    have "?s = Fin 50" using that(2) by (cases ?s) (simp_all add: jeq_def)
    then show ?thesis using a36 [OF that(1)] by (simp add: jdiv_def mk_def)
  qed
  have inf: "is_inf (toFixedVal 2 (jdiv ?y ?s)) \<or> toFixedVal 2 (jdiv ?y ?s) = NaN" if "is_zero ?s"
    using jdiv_by_zero [OF that, of ?y] by (cases "jdiv ?y ?s") simp_all
  have zero: "toFixedVal 2 (jdiv ?y ?s) = Fin 0" if "is_zero ?y" "?s \<noteq> NaN" "\<not> is_zero ?s"
    by (rule toFixedVal_is_zero) (rule jdiv_zero_by [OF that])
  show ?thesis
    using a36 five inf zero by (simp add: calculateResults_Inr maxNormalStressMPa_def)
qed

theorem safety_factor_formula_witness:
  "material stress50 = ASTM_A36 \<and> jeq (maxNormalStressMPa stress50) (Fin 50) \<and>
   (\<exists>out. calculateResults stress50 = Inr out \<and> safetyFactor (results out) = Fin 5) \<and>
   is_zero (maxNormalStressMPa upwardLoad) \<and>
   (\<exists>out. calculateResults upwardLoad = Inr out \<and> safetyFactor (results out) = PInf) \<and>
   is_zero (materialYieldStrength (upwardLoad\<lparr>material := Custom\<rparr>)) \<and>
   (\<exists>out. calculateResults (upwardLoad\<lparr>material := Custom\<rparr>) = Inr out \<and>
      safetyFactor (results out) = NaN) \<and>
   is_zero (materialYieldStrength (stress50\<lparr>material := Custom\<rparr>)) \<and>
   \<not> is_zero (maxNormalStressMPa (stress50\<lparr>material := Custom\<rparr>)) \<and>
   (\<exists>out. calculateResults (stress50\<lparr>material := Custom\<rparr>) = Inr out \<and>
      is_zero (safetyFactor (results out)))"
proof -
  have m: "material stress50 = ASTM_A36" by (simp add: stress50_def initialState_def)
  have s: "jeq (maxNormalStressMPa stress50) (Fin 50)" by (simp add: stress50_stress jeq_def)
  have u: "is_zero (maxNormalStressMPa upwardLoad)" by (simp add: upwardLoad_stress)
  have uy: "materialYieldStrength upwardLoad = Fin 250"
    by (simp add: upwardLoad_def initialState_def materialYieldStrength_def)
  have uc: "maxNormalStressMPa (upwardLoad\<lparr>material := Custom\<rparr>) = Fin 0"
    "materialYieldStrength (upwardLoad\<lparr>material := Custom\<rparr>) = Fin 0"
    by code_simp+
  have cy: "is_zero (materialYieldStrength (stress50\<lparr>material := Custom\<rparr>))"
    by (simp add: stress50_def initialState_def materialYieldStrength_def)
  have cs: "maxNormalStressMPa (stress50\<lparr>material := Custom\<rparr>) \<noteq> NaN"
    "\<not> is_zero (maxNormalStressMPa (stress50\<lparr>material := Custom\<rparr>))"
    by (simp_all add: stress50_custom_stress)
  have 1: "\<exists>out. calculateResults stress50 = Inr out \<and> safetyFactor (results out) = Fin 5"
    using safety_factor_formula [of stress50] m s by auto
  have 2: "\<exists>out. calculateResults upwardLoad = Inr out \<and> safetyFactor (results out) = PInf"
    using safety_factor_formula [of upwardLoad] u
    by (auto simp: uy upwardLoad_stress jdiv_def sinf_def)
  have 3: "\<exists>out. calculateResults (upwardLoad\<lparr>material := Custom\<rparr>) = Inr out \<and>
      safetyFactor (results out) = NaN"
    using safety_factor_formula [of "upwardLoad\<lparr>material := Custom\<rparr>"]
    by (auto simp: uc jdiv_def)
  have 4: "\<exists>out. calculateResults (stress50\<lparr>material := Custom\<rparr>) = Inr out \<and>
      is_zero (safetyFactor (results out))"
  proof -
    obtain out where "calculateResults (stress50\<lparr>material := Custom\<rparr>) = Inr out"
      "safetyFactor (results out) = Fin 0"
      using safety_factor_formula [of "stress50\<lparr>material := Custom\<rparr>"] cy cs by blast
    then show ?thesis by simp
  qed
  show ?thesis
    using m s u uc(2) cy cs(2) 1 2 3 4 by simp
qed

subsection \<open>Degenerate geometry\<close>








subsection \<open>The sign of the maximum bending moment\<close>

lemma simpleMoment_nonneg:
  "m = NaN \<or> jle (Fin 0) m \<Longrightarrow> simpleMoment r1 l m ld = NaN \<or> jle (Fin 0) (simpleMoment r1 l m ld)"
  by (cases "type ld") (simp_all add: simpleMoment_def Let_def jmax_nonneg)

lemma cantileverMoment_nonneg:
  "m = NaN \<or> jle (Fin 0) m \<Longrightarrow> cantileverMoment len m ld = NaN \<or> jle (Fin 0) (cantileverMoment len m ld)"
  by (cases "type ld") (simp_all add: cantileverMoment_def Let_def jmax_nonneg)

lemma foldl_simpleMoment_nonneg:
  "m = NaN \<or> jle (Fin 0) m \<Longrightarrow>
   foldl (simpleMoment r1 l) m lds = NaN \<or> jle (Fin 0) (foldl (simpleMoment r1 l) m lds)"
  by (induction lds arbitrary: m) (simp_all add: simpleMoment_nonneg)

lemma foldl_cantileverMoment_nonneg:
  "m = NaN \<or> jle (Fin 0) m \<Longrightarrow>
   foldl (cantileverMoment len) m lds = NaN \<or> jle (Fin 0) (foldl (cantileverMoment len) m lds)"
  by (induction lds arbitrary: m) (simp_all add: cantileverMoment_nonneg)

lemma maxBendingMomentNm_nonneg:
  "maxBendingMomentNm inp = NaN \<or> jle (Fin 0) (maxBendingMomentNm inp)"
proof -
  have z: "Fin 0 = NaN \<or> jle (Fin 0) (Fin 0)" by (simp add: jle_def)
  show ?thesis
    using foldl_simpleMoment_nonneg [OF z] foldl_cantileverMoment_nonneg [OF z]
    by (simp add: maxBendingMomentNm_def jle_def)
qed

lemma simpleReaction_fin:
  assumes "is_fin l" "is_fin r" "rv l \<noteq> rv r" "finiteLoad ld" "is_fin (fst R)" "is_fin (snd R)"
  shows "is_fin (fst (simpleReaction l r R ld))" "is_fin (snd (simpleReaction l r R ld))"
  using assms by (cases "type ld"; simp add: simpleReaction_def finiteLoad_def Let_def)+

lemma foldl_simpleReaction_fin:
  assumes "is_fin l" "is_fin r" "rv l \<noteq> rv r" "\<forall>ld\<in>set lds. finiteLoad ld"
    "is_fin (fst R)" "is_fin (snd R)"
  shows "is_fin (fst (foldl (simpleReaction l r) R lds))"
  using assms(4-6)
proof (induction lds arbitrary: R)
  case Nil
  then show ?case by simp
next
  case (Cons ld lds)
  then show ?case
    using simpleReaction_fin [OF assms(1-3), of ld R] by simp
qed

lemma simpleMoment_fin:
  assumes "is_fin r1" "is_fin l" "finiteLoad ld" "is_fin m" "0 \<le> rv m"
  shows "is_fin (simpleMoment r1 l m ld) \<and> 0 \<le> rv (simpleMoment r1 l m ld)"
  using assms by (cases "type ld") (simp_all add: simpleMoment_def finiteLoad_def Let_def)

lemma foldl_simpleMoment_fin:
  assumes "is_fin r1" "is_fin l" "\<forall>ld\<in>set lds. finiteLoad ld" "is_fin m" "0 \<le> rv m"
  shows "is_fin (foldl (simpleMoment r1 l) m lds) \<and> 0 \<le> rv (foldl (simpleMoment r1 l) m lds)"
  using assms(3-5)
proof (induction lds arbitrary: m)
  case Nil
  then show ?case by simp
next
  case (Cons ld lds)
  then show ?case
    using simpleMoment_fin [OF assms(1,2), of ld m] by simp
qed

lemma cantileverMoment_fin:
  assumes "is_fin len" "finiteLoad ld" "is_fin m" "0 \<le> rv m"
  shows "is_fin (cantileverMoment len m ld) \<and> 0 \<le> rv (cantileverMoment len m ld)"
  using assms by (cases "type ld") (simp_all add: cantileverMoment_def finiteLoad_def Let_def)

lemma foldl_cantileverMoment_fin:
  assumes "is_fin len" "\<forall>ld\<in>set lds. finiteLoad ld" "is_fin m" "0 \<le> rv m"
  shows "is_fin (foldl (cantileverMoment len) m lds) \<and> 0 \<le> rv (foldl (cantileverMoment len) m lds)"
  using assms(2-4)
proof (induction lds arbitrary: m)
  case Nil
  then show ?case by simp
next
  case (Cons ld lds)
  then show ?case
    using cantileverMoment_fin [OF assms(1), of ld m] by simp
qed

lemma maxBendingMomentNm_fin:
  assumes "is_fin (beamLength inp)" "\<forall>ld\<in>set (loads inp). finiteLoad ld"
    "beamType inp = ''Simple Beam'' \<longrightarrow>
       is_fin (leftSupport inp) \<and> is_fin (rightSupport inp) \<and>
       \<not> jeq (leftSupport inp) (rightSupport inp)"
  shows "is_fin (maxBendingMomentNm inp) \<and> 0 \<le> rv (maxBendingMomentNm inp)"
proof (cases "beamType inp = ''Simple Beam''")
  case True
  then have s: "is_fin (leftSupport inp)" "is_fin (rightSupport inp)"
    "\<not> jeq (leftSupport inp) (rightSupport inp)"
    using assms(3) by simp_all
  have ne: "rv (toM (leftSupport inp)) \<noteq> rv (toM (rightSupport inp))"
    using s by (simp add: jeq_fin)
  have r1: "is_fin (R1 inp)"
    using True foldl_simpleReaction_fin [OF _ _ ne assms(2), of "(Fin 0, Fin 0)"] s(1,2)
    by (simp add: R1_def reactions_def)
  show ?thesis
    using True foldl_simpleMoment_fin [OF r1 _ assms(2), of "toM (leftSupport inp)" "Fin 0"] s(1)
    by (simp add: maxBendingMomentNm_def)
next
  case False
  then show ?thesis
    using foldl_cantileverMoment_fin [OF _ assms(2), of "toM (beamLength inp)" "Fin 0"] assms(1)
    by (simp add: maxBendingMomentNm_def)
qed

lemma simpleReaction_nonpos:
  assumes "is_fin l" "is_fin r" "rv l < rv r" "nonPositiveLoadOn (rv l * 1000) (rv r * 1000) ld"
    "is_fin (fst R)" "rv (fst R) \<le> 0"
  shows "is_fin (fst (simpleReaction l r R ld)) \<and> rv (fst (simpleReaction l r R ld)) \<le> 0"
proof -
  have p: "type ld = PointLoad" "is_fin (magnitude ld)" "rv (magnitude ld) \<le> 0"
    "is_fin (startPosition ld)" "rv (startPosition ld) / 1000 \<le> rv r"
    using assms(4) by (simp_all add: nonPositiveLoadOn_def)
  have "rv (magnitude ld) * (rv r - rv (startPosition ld) / 1000) / (rv r - rv l) \<le> 0"
    using p(3,5) assms(3)
    by (intro divide_nonpos_pos mult_nonpos_nonneg) simp_all
  then show ?thesis
    using assms(1-3,5,6) p(1,2,4) by (simp add: simpleReaction_def Let_def)
qed

lemma foldl_simpleReaction_nonpos:
  assumes "is_fin l" "is_fin r" "rv l < rv r"
    "\<forall>ld\<in>set lds. nonPositiveLoadOn (rv l * 1000) (rv r * 1000) ld"
    "is_fin (fst R)" "rv (fst R) \<le> 0"
  shows "is_fin (fst (foldl (simpleReaction l r) R lds)) \<and>
         rv (fst (foldl (simpleReaction l r) R lds)) \<le> 0"
  using assms(4-6)
proof (induction lds arbitrary: R)
  case Nil
  then show ?case by simp
next
  case (Cons ld lds)
  then show ?case
    using simpleReaction_nonpos [OF assms(1-3), of ld R] by simp
qed

lemma simpleMoment_zero:
  assumes "is_fin r1" "rv r1 \<le> 0" "is_fin l" "nonPositiveLoadOn (rv l * 1000) b ld"
  shows "simpleMoment r1 l (Fin 0) ld = Fin 0"
proof -
  have p: "type ld = PointLoad" "is_fin (startPosition ld)" "rv l \<le> rv (startPosition ld) / 1000"
    using assms(4) by (simp_all add: nonPositiveLoadOn_def)
  have "rv r1 * (rv (startPosition ld) / 1000 - rv l) \<le> 0"
    using assms(2) p(3) by (intro mult_nonpos_nonneg) simp_all
  then show ?thesis
    using assms(1,3) p(1,2) by (simp add: simpleMoment_def Let_def jmax_zero_nonpos)
qed

lemma foldl_simpleMoment_zero:
  assumes "is_fin r1" "rv r1 \<le> 0" "is_fin l" "\<forall>ld\<in>set lds. nonPositiveLoadOn (rv l * 1000) b ld"
  shows "foldl (simpleMoment r1 l) (Fin 0) lds = Fin 0"
  using assms(4)
proof (induction lds)
  case Nil
  then show ?case by simp
next
  case (Cons ld lds)
  then show ?case
    using simpleMoment_zero [OF assms(1-3), of b ld] by simp
qed

lemma cantileverMoment_zero:
  assumes "is_fin len" "nonPositiveLoadOn a (rv len * 1000) ld"
  shows "cantileverMoment len (Fin 0) ld = Fin 0"
proof -
  have p: "type ld = PointLoad" "is_fin (magnitude ld)" "rv (magnitude ld) \<le> 0"
    "is_fin (startPosition ld)" "rv (startPosition ld) / 1000 \<le> rv len"
    using assms(2) by (simp_all add: nonPositiveLoadOn_def)
  have "rv (magnitude ld) * (rv len - rv (startPosition ld) / 1000) \<le> 0"
    using p(3,5) by (intro mult_nonpos_nonneg) simp_all
  then show ?thesis
    using assms(1) p(1,2,4) by (simp add: cantileverMoment_def Let_def jmax_zero_nonpos)
qed

lemma foldl_cantileverMoment_zero:
  assumes "is_fin len" "\<forall>ld\<in>set lds. nonPositiveLoadOn a (rv len * 1000) ld"
  shows "foldl (cantileverMoment len) (Fin 0) lds = Fin 0"
  using assms(2)
proof (induction lds)
  case Nil
  then show ?case by simp
next
  case (Cons ld lds)
  then show ?case
    using cantileverMoment_zero [OF assms(1), of a ld] by simp
qed

lemma simple_nonPositive_zero:
  assumes "beamType inp = ''Simple Beam''" "is_fin (leftSupport inp)" "is_fin (rightSupport inp)"
    "jlt (leftSupport inp) (rightSupport inp)"
    "\<forall>ld\<in>set (loads inp). nonPositiveLoadOn (rv (leftSupport inp)) (rv (rightSupport inp)) ld"
  shows "maxBendingMomentNm inp = Fin 0"
proof -
  let ?l = "toM (leftSupport inp)" and ?r = "toM (rightSupport inp)"
  have lr: "rv ?l < rv ?r" using assms(2-4) by (simp add: jlt_fin)
  have d: "\<forall>ld\<in>set (loads inp). nonPositiveLoadOn (rv ?l * 1000) (rv ?r * 1000) ld"
    using assms(2,3,5) by simp
  have "is_fin (R1 inp) \<and> rv (R1 inp) \<le> 0"
    using foldl_simpleReaction_nonpos [OF _ _ lr d, of "(Fin 0, Fin 0)"] assms(1-3)
    by (simp add: R1_def reactions_def)
  then show ?thesis
    using foldl_simpleMoment_zero [OF _ _ _ d, of "R1 inp"] assms(1,2)
    by (simp add: maxBendingMomentNm_def)
qed

lemma cantilever_nonPositive_zero:
  assumes "beamType inp = ''Cantilever Beam''" "is_fin (beamLength inp)"
    "\<forall>ld\<in>set (loads inp). nonPositiveLoadOn 0 (rv (beamLength inp)) ld"
  shows "maxBendingMomentNm inp = Fin 0"
proof -
  have d: "\<forall>ld\<in>set (loads inp). nonPositiveLoadOn 0 (rv (toM (beamLength inp)) * 1000) ld"
    using assms(2,3) by simp
  show ?thesis
    using foldl_cantileverMoment_zero [OF _ d] assms(1,2)
    by (simp add: maxBendingMomentNm_def)
qed

text \<open>
  Claim C10, as stated, fails twice. An all-negative loading can report a positive maximum:
  a single upward point load of 1000 N at the left end of the beam, on the overhang left of
  a support at 500 mm, gives \<open>R1 = -2000\<close> and the moment \<open>R1 * (0 - 0.5) = 1000\<close>. And
  the maximum is NaN, which is not \<open>>= 0\<close>, for a uniform load whose end position is
  undefined.
\<close>

theorem all_negative_loading_positive_moment:
  "rv (magnitude (hd (loads overhangUpwardLoad))) < 0 \<and> length (loads overhangUpwardLoad) = 1 \<and>
   maxBendingMomentNm overhangUpwardLoad = Fin 1000 \<and>
   calculateResults overhangUpwardLoad =
     Inr \<lparr>beamWeight = Fin (154017 / 100),
          results = \<lparr>maxShearForce = Fin 2000, maxBendingMoment = Fin 1000,
                     maxNormalStress = Fin (3 / 2), maxShearStress = Fin (3 / 20),
                     safetyFactor = Fin (16667 / 100), centerOfGravity = Fin (1 / 2),
                     momentOfInertia = Fin (67 / 1000000), sectionModulus = Fin (667 / 1000000)\<rparr>\<rparr> \<and>
   maxBendingMomentNm uniformWithoutEnd = NaN \<and> \<not> jge NaN (Fin 0)"
  by code_simp

text \<open>
  Claim C10, amended. The maximum bending moment starts at 0 and is only replaced through
  \<open>Math.max\<close>, so that it is NaN or at least 0, before and after rounding; it is a finite
  number at least 0 when the beam length and the loads are finite and, for a simple beam,
  the supports are finite and do not coincide. A loading of point loads of magnitude at
  most 0 reports the maximum 0 when the loads lie between the supports of a simple beam, or
  between the fixed end and the free end of a cantilever beam.
\<close>

theorem max_bending_moment_nonneg:
  "(maxBendingMomentNm inp = NaN \<or> jle (Fin 0) (maxBendingMomentNm inp)) \<and>
   (\<exists>out. calculateResults inp = Inr out \<and>
      (maxBendingMoment (results out) = NaN \<or> jle (Fin 0) (maxBendingMoment (results out)))) \<and>
   (is_fin (beamLength inp) \<and> (\<forall>ld\<in>set (loads inp). finiteLoad ld) \<and>
    (beamType inp = ''Simple Beam'' \<longrightarrow>
       is_fin (leftSupport inp) \<and> is_fin (rightSupport inp) \<and>
       \<not> jeq (leftSupport inp) (rightSupport inp)) \<longrightarrow>
      is_fin (maxBendingMomentNm inp) \<and> 0 \<le> rv (maxBendingMomentNm inp)) \<and>
   (beamType inp = ''Simple Beam'' \<and> is_fin (leftSupport inp) \<and> is_fin (rightSupport inp) \<and>
    jlt (leftSupport inp) (rightSupport inp) \<and>
    (\<forall>ld\<in>set (loads inp). nonPositiveLoadOn (rv (leftSupport inp)) (rv (rightSupport inp)) ld) \<longrightarrow>
      maxBendingMomentNm inp = Fin 0) \<and>
   (beamType inp = ''Cantilever Beam'' \<and> is_fin (beamLength inp) \<and>
    (\<forall>ld\<in>set (loads inp). nonPositiveLoadOn 0 (rv (beamLength inp)) ld) \<longrightarrow>
      maxBendingMomentNm inp = Fin 0)"
proof (intro conjI impI)
  show "maxBendingMomentNm inp = NaN \<or> jle (Fin 0) (maxBendingMomentNm inp)"
    by (rule maxBendingMomentNm_nonneg)
  show "\<exists>out. calculateResults inp = Inr out \<and>
      (maxBendingMoment (results out) = NaN \<or> jle (Fin 0) (maxBendingMoment (results out)))"
    using toFixedVal_nonneg [OF maxBendingMomentNm_nonneg, of 2 inp]
    by (simp add: calculateResults_Inr)
next
  assume "is_fin (beamLength inp) \<and> (\<forall>ld\<in>set (loads inp). finiteLoad ld) \<and>
    (beamType inp = ''Simple Beam'' \<longrightarrow>
       is_fin (leftSupport inp) \<and> is_fin (rightSupport inp) \<and>
       \<not> jeq (leftSupport inp) (rightSupport inp))"
  then have "is_fin (maxBendingMomentNm inp) \<and> 0 \<le> rv (maxBendingMomentNm inp)"
    using maxBendingMomentNm_fin [of inp] by blast
  then show "is_fin (maxBendingMomentNm inp)" "0 \<le> rv (maxBendingMomentNm inp)"
    by simp_all
next
  assume "beamType inp = ''Simple Beam'' \<and> is_fin (leftSupport inp) \<and> is_fin (rightSupport inp) \<and>
    jlt (leftSupport inp) (rightSupport inp) \<and>
    (\<forall>ld\<in>set (loads inp). nonPositiveLoadOn (rv (leftSupport inp)) (rv (rightSupport inp)) ld)"
  then show "maxBendingMomentNm inp = Fin 0"
    using simple_nonPositive_zero [of inp] by blast
next
  assume "beamType inp = ''Cantilever Beam'' \<and> is_fin (beamLength inp) \<and>
    (\<forall>ld\<in>set (loads inp). nonPositiveLoadOn 0 (rv (beamLength inp)) ld)"
  then show "maxBendingMomentNm inp = Fin 0"
    using cantilever_nonPositive_zero [of inp] by blast
qed

theorem max_bending_moment_nonneg_witness:
  "jlt (leftSupport upwardLoad) (rightSupport upwardLoad) \<and>
   list_all (nonPositiveLoadOn (rv (leftSupport upwardLoad)) (rv (rightSupport upwardLoad)))
     (loads upwardLoad) \<and>
   maxBendingMomentNm upwardLoad = Fin 0 \<and>
   list_all (nonPositiveLoadOn 0 (rv (beamLength upwardLoad))) (loads upwardLoad) \<and>
   maxBendingMomentNm (upwardLoad\<lparr>beamType := ''Cantilever Beam''\<rparr>) = Fin 0 \<and>
   list_all finiteLoad (loads twoLoadCantilever) \<and>
   is_fin (maxBendingMomentNm twoLoadCantilever) \<and> 0 \<le> rv (maxBendingMomentNm twoLoadCantilever)"
proof -
  let ?c = "upwardLoad\<lparr>beamType := ''Cantilever Beam''\<rparr>"
  have s: "beamType upwardLoad = ''Simple Beam''" "is_fin (leftSupport upwardLoad)"
    "is_fin (rightSupport upwardLoad)" "jlt (leftSupport upwardLoad) (rightSupport upwardLoad)"
    by (simp_all add: upwardLoad_def initialState_def jlt_def)
  have d: "list_all (nonPositiveLoadOn (rv (leftSupport upwardLoad)) (rv (rightSupport upwardLoad)))
     (loads upwardLoad)"
    by (simp add: upwardLoad_def initialState_def nonPositiveLoadOn_def)
  have c: "beamType ?c = ''Cantilever Beam''" "is_fin (beamLength ?c)"
    "list_all (nonPositiveLoadOn 0 (rv (beamLength ?c))) (loads ?c)"
    by (simp_all add: upwardLoad_def initialState_def nonPositiveLoadOn_def)
  have f: "is_fin (beamLength twoLoadCantilever)" "list_all finiteLoad (loads twoLoadCantilever)"
    "beamType twoLoadCantilever \<noteq> ''Simple Beam''"
    by (simp_all add: twoLoadCantilever_def initialState_def finiteLoad_def)
  have 1: "maxBendingMomentNm upwardLoad = Fin 0"
    using max_bending_moment_nonneg [of upwardLoad] s d by (simp add: list_all_iff)
  have 2: "maxBendingMomentNm ?c = Fin 0"
    using max_bending_moment_nonneg [of ?c] c by (simp add: list_all_iff)
  have 3: "is_fin (maxBendingMomentNm twoLoadCantilever) \<and> 0 \<le> rv (maxBendingMomentNm twoLoadCantilever)"
    using max_bending_moment_nonneg [of twoLoadCantilever] f by (simp add: list_all_iff)
  show ?thesis
    using s(4) d c(3) f(2) 1 2 3 by simp
qed

subsection \<open>The maximum bending moment of a simple beam\<close>

text \<open>
  Claim C1 describes the maximum moment of a simple beam as the maximum of \<open>M(x)\<close> over the
  load positions. \<open>calculateResults\<close> evaluates \<open>R1 * (x - left)\<close> at a point load and
  subtracts no other load. With two point loads of 1000 N at 250 mm and 750 mm on the
  initial beam it reports 750 N m, where \<open>M(x)\<close> is 250 N m at both loads; the diagram
  code subtracts the first load and computes this value (250000 N mm) at 750 mm and at its
  sample 50 (505.05 mm).
\<close>

theorem simple_beam_moment_ignores_other_loads:
  "R1 twoPointLoads = Fin 1000 \<and>
   maxBendingMomentNm twoPointLoads = Fin 750 \<and>
   calculateResults twoPointLoads =
     Inr \<lparr>beamWeight = Fin (154017 / 100),
          results = \<lparr>maxShearForce = Fin 1000, maxBendingMoment = Fin 750,
                     maxNormalStress = Fin (113 / 100), maxShearStress = Fin (2 / 25),
                     safetyFactor = Fin (11111 / 50), centerOfGravity = Fin (1 / 2),
                     momentOfInertia = Fin (67 / 1000000), sectionModulus = Fin (667 / 1000000)\<rparr>\<rparr> \<and>
   specMoment twoPointLoads (Fin (1 / 4)) = Fin 250 \<and>
   specMoment twoPointLoads (Fin (3 / 4)) = Fin 250 \<and>
   specMaxMoment twoPointLoads = Fin 250 \<and>
   diagramReactions twoPointLoads = (Fin 1000, Fin 1000) \<and>
   sample twoPointLoads (Fin 1000) (Fin 1000) (Fin 750) = (Fin (- 1000), Fin 250000) \<and>
   samplesAt twoPointLoads (Fin 1000) (Fin 1000) 50 =
     Inr ((Fin (10101 / 20), Fin 0), (Fin (10101 / 20), Fin 250000))"
  by code_simp

section \<open>Properties of calculateDiagrams\<close>





lemma cantileverStep_const: "cantileverStep inp xpos sm ld = cantileverStep inp xpos sm' ld"
  by (simp add: cantileverStep_def)

lemma foldl_cantileverStep_last:
  "lds \<noteq> [] \<Longrightarrow>
   foldl (cantileverStep inp xpos) sm lds = cantileverStep inp xpos (Fin 0, Fin 0) (last lds)"
proof (induction lds arbitrary: sm)
  case Nil
  then show ?case by simp
next
  case (Cons ld lds)
  show ?case
  proof (cases "lds = []")
    case True
    then show ?thesis by (simp add: cantileverStep_const [of inp xpos sm ld "(Fin 0, Fin 0)"])
  next
    case False
    then show ?thesis using Cons.IH by simp
  qed
qed

lemma cantileverStep_loads_upd:
  "cantileverStep (inp\<lparr>loads := lds\<rparr>) = cantileverStep inp"
  by (intro ext) (simp add: cantileverStep_def split: load_type.splits)

lemma cantilever_sample_last:
  assumes "beamType inp = ''Cantilever Beam''" and "loads inp \<noteq> []"
  shows "sample inp r1 r2 xpos = sample (inp\<lparr>loads := [last (loads inp)]\<rparr>) r1' r2' xpos"
  using assms by (simp add: sample_def foldl_cantileverStep_last cantileverStep_loads_upd)

text \<open>
  Claim C6. For a cantilever beam with at least one load, every branch of the loop over the
  loads assigns the shear and the moment, so that the pair computed at a position is the one
  of the last load, and the diagrams are those of the state with the last load alone.
\<close>

theorem cantilever_diagram_last_load_wins:
  assumes "beamType inp = ''Cantilever Beam''" and "loads inp \<noteq> []"
  shows "(\<forall>r1 r2 xpos. sample inp r1 r2 xpos =
            cantileverStep inp xpos (Fin 0, Fin 0) (last (loads inp))) \<and>
         calculateDiagrams inp = calculateDiagrams (inp\<lparr>loads := [last (loads inp)]\<rparr>)"
proof -
  have one: "sample inp r1 r2 xpos = cantileverStep inp xpos (Fin 0, Fin 0) (last (loads inp))"
    for r1 r2 xpos
    using assms by (simp add: sample_def foldl_cantileverStep_last)
  let ?inp' = "inp\<lparr>loads := [last (loads inp)]\<rparr>"
  have dx: "dx ?inp' = dx inp" by (simp add: dx_def)
  have "shearPoint inp r1 r2 = shearPoint ?inp' r1' r2'"
       "momentPoint inp r1 r2 = momentPoint ?inp' r1' r2'" for r1 r2 r1' r2'
    using cantilever_sample_last [OF assms, of r1 r2 _ r1' r2']
    by (simp_all add: shearPoint_def momentPoint_def dx fun_eq_iff)
  then have "shearPoint inp (fst (diagramReactions inp)) (snd (diagramReactions inp)) =
             shearPoint ?inp' (fst (diagramReactions ?inp')) (snd (diagramReactions ?inp'))"
            "momentPoint inp (fst (diagramReactions inp)) (snd (diagramReactions inp)) =
             momentPoint ?inp' (fst (diagramReactions ?inp')) (snd (diagramReactions ?inp'))"
    by blast+
  then have "calculateDiagrams inp = calculateDiagrams ?inp'"
    by (simp only: calculateDiagrams_Inr)
  then show ?thesis
    using one by blast
qed

theorem cantilever_diagram_last_load_wins_witness:
  "beamType twoLoadCantilever = ''Cantilever Beam'' \<and> loads twoLoadCantilever \<noteq> [] \<and>
   calculateDiagrams twoLoadCantilever =
     calculateDiagrams (twoLoadCantilever
       \<lparr>loads := [\<lparr>type = UniformLoad, magnitude = Fin 2, startPosition = Fin 200,
                   endPosition = Some (Fin 400)\<rparr>]\<rparr>)"
proof -
  have h: "beamType twoLoadCantilever = ''Cantilever Beam''" "loads twoLoadCantilever \<noteq> []"
    by (simp_all add: twoLoadCantilever_def initialState_def)
  have l: "last (loads twoLoadCantilever) =
      \<lparr>type = UniformLoad, magnitude = Fin 2, startPosition = Fin 200, endPosition = Some (Fin 400)\<rparr>"
    by (simp add: twoLoadCantilever_def)
  show ?thesis
    using cantilever_diagram_last_load_wins [OF h] h unfolding l by simp
qed

end
